theory Spec2Isabelle
  imports Complex_Main "HOL-Library.AList" "HOL-Library.Sublist"
begin

section \<open>Strings\<close>

text \<open>
  Python strings are modelled as \<open>string\<close> (lists of 8-bit characters).  The only
  characters the programs inspect are ASCII: the hexadecimal digits, \<open>x\<close>, the comma
  and the line feed.  \<open>str.lower()\<close> is modelled on the ASCII letters; every other
  character is left as it is.
\<close>

definition lower_char :: "char \<Rightarrow> char" where
  "lower_char c =
     (case map_of (zip ''ABCDEFGHIJKLMNOPQRSTUVWXYZ'' ''abcdefghijklmnopqrstuvwxyz'') c of
        Some d \<Rightarrow> d
      | None \<Rightarrow> c)"

definition lower :: "string \<Rightarrow> string" where
  "lower s = map lower_char s"

section \<open>filter\_and\_update\_rewards.py: address validation\<close>

text \<open>
  \<^verbatim>\<open>ETH_ADDRESS_PATTERN = re.compile(r'^0x[a-fA-F0-9]{40}$')\<close>

  \<^verbatim>\<open>def is_valid_ethereum_address(address):
      return bool(ETH_ADDRESS_PATTERN.match(address))\<close>

  The pattern is read piece by piece.  \<open>match\<close> anchors at the start of the string, so
  \<open>^\<close> adds nothing.  \<open>0x\<close> is the two literal characters, \<open>[a-fA-F0-9]{40}\<close> is
  exactly forty characters of the class.  Without the \<open>MULTILINE\<close> flag Python's \<open>$\<close>
  matches at the end of the string and also just before a line feed that is the last
  character of the string.
\<close>

definition hex_class :: "char \<Rightarrow> bool" where
  "hex_class c = (c \<in> set ''abcdefABCDEF0123456789'')"

definition dollar :: "string \<Rightarrow> bool" where
  "dollar rest = (rest = [] \<or> rest = [CHR 0x0A])"

definition is_valid_ethereum_address :: "string \<Rightarrow> bool" where
  "is_valid_ethereum_address address =
     (take 2 address = ''0x'' \<and>
      length (take 40 (drop 2 address)) = 40 \<and>
      list_all hex_class (take 40 (drop 2 address)) \<and>
      dollar (drop 42 address))"

section \<open>Python values\<close>

text \<open>
  Every \<open>raise\<close> of the interpreter is a value of the model: a function that can raise
  returns \<open>error + 'a\<close>, with \<open>Inl\<close> the exception.
\<close>

datatype error = KeyError string | ValueError | TypeError | AttributeError | OverflowError

definition bindE :: "error + 'a \<Rightarrow> ('a \<Rightarrow> error + 'b) \<Rightarrow> error + 'b" where
  "bindE m f = (case m of Inl e \<Rightarrow> Inl e | Inr x \<Rightarrow> f x)"

text \<open>
  A Python \<open>float\<close> is a binary64 number.  Every finite binary64 number is a rational,
  so the values are \<open>Fin q\<close>, the negative zero, the two infinities and NaN.  Comparison
  of two floats is exact, so it is defined here; the operations that round or that read and
  write decimal text (\<open>float(s)\<close>, \<open>float(n)\<close>, \<open>str(x)\<close>, \<open>x + y\<close>, \<open>sum(xs)\<close>)
  belong to the interpreter and are parameters of the model, collected in \<open>float_ops\<close>.
\<close>

datatype pyfloat = Fin rat | NegZero | PInf | NInf | NaN

fun float_rank :: "pyfloat \<Rightarrow> (int \<times> rat) option" where
  "float_rank NaN = None"
| "float_rank NInf = Some (- 1, 0)"
| "float_rank (Fin q) = Some (0, q)"
| "float_rank NegZero = Some (0, 0)"
| "float_rank PInf = Some (1, 0)"

text \<open>\<open>float_ge x y\<close> is Python's \<open>x >= y\<close>: false as soon as one side is NaN.\<close>

definition float_ge :: "pyfloat \<Rightarrow> pyfloat \<Rightarrow> bool" where
  "float_ge x y =
     (case (float_rank x, float_rank y) of
        (Some (i, a), Some (j, b)) \<Rightarrow> j < i \<or> (j = i \<and> b \<le> a)
      | _ \<Rightarrow> False)"

record float_ops =
  float_str :: "string \<Rightarrow> pyfloat option"
  float_int :: "int \<Rightarrow> pyfloat option"
  str_float :: "pyfloat \<Rightarrow> string"
  add_float :: "pyfloat \<Rightarrow> pyfloat \<Rightarrow> pyfloat"
  sum_float :: "pyfloat list \<Rightarrow> pyfloat"

text \<open>
  \<^item> \<open>float_str fl s\<close> is \<open>float(s)\<close> for a string \<open>s\<close>; \<open>None\<close> is \<open>ValueError\<close>.
  \<^item> \<open>float_int fl n\<close> is \<open>float(n)\<close> for an integer \<open>n\<close>; \<open>None\<close> is \<open>OverflowError\<close>.
  \<^item> \<open>str_float fl x\<close> is \<open>str(x)\<close>.
  \<^item> \<open>add_float fl x y\<close> is \<open>x + y\<close>.
  \<^item> \<open>sum_float fl xs\<close> is \<open>sum(xs)\<close> for a non-empty list of floats.
\<close>

text \<open>
  What \<open>json.load\<close> returns.  An object is the list of the items of the resulting
  dictionary, in order.
\<close>

datatype json =
    JNull
  | JBool bool
  | JInt int
  | JFloat pyfloat
  | JStr string
  | JArr "json list"
  | JObj "(string \<times> json) list"

text \<open>\<open>float(v)\<close> for a value read from JSON.\<close>

fun py_float :: "float_ops \<Rightarrow> json \<Rightarrow> error + pyfloat" where
  "py_float fl (JFloat x) = Inr x"
| "py_float fl (JInt n) = (case float_int fl n of Some x \<Rightarrow> Inr x | None \<Rightarrow> Inl OverflowError)"
| "py_float fl (JBool b) = Inr (Fin (if b then 1 else 0))"
| "py_float fl (JStr s) = (case float_str fl s of Some x \<Rightarrow> Inr x | None \<Rightarrow> Inl ValueError)"
| "py_float fl JNull = Inl TypeError"
| "py_float fl (JArr vs) = Inl TypeError"
| "py_float fl (JObj kvs) = Inl TypeError"

text \<open>
  A dictionary with string keys is the list of its items in insertion order; \<open>d[k]\<close>
  raises \<open>KeyError\<close> on a missing key, \<open>d[k] = v\<close> replaces the value in place or
  appends the item (\<open>AList.update\<close>).  A row of \<open>csv.DictReader\<close> is such a
  dictionary from column names to the cell texts.
\<close>

type_synonym row = "(string \<times> string) list"

definition getitem :: "(string \<times> 'v) list \<Rightarrow> string \<Rightarrow> error + 'v" where
  "getitem d k = (case map_of d k of Some v \<Rightarrow> Inr v | None \<Rightarrow> Inl (KeyError k))"

definition contains_key :: "(string \<times> 'v) list \<Rightarrow> string \<Rightarrow> bool" where
  "contains_key d k = (map_of d k \<noteq> None)"

text \<open>\<open>float(row[k])\<close>\<close>

definition float_field :: "float_ops \<Rightarrow> row \<Rightarrow> string \<Rightarrow> error + pyfloat" where
  "float_field fl r k =
     bindE (getitem r k)
       (\<lambda>s. case float_str fl s of Some x \<Rightarrow> Inr x | None \<Rightarrow> Inl ValueError)"

section \<open>filter\_and\_update\_rewards.py: loading the reference data\<close>

text \<open>
  \<^verbatim>\<open>for row in reader: unique_addresses.add(row['address'].lower())\<close>
\<close>

fun load_unique_addresses_loop :: "string set \<Rightarrow> row list \<Rightarrow> error + string set" where
  "load_unique_addresses_loop unique_addresses [] = Inr unique_addresses"
| "load_unique_addresses_loop unique_addresses (r # rest) =
     (case getitem r ''address'' of
        Inl e \<Rightarrow> Inl e
      | Inr a \<Rightarrow> load_unique_addresses_loop (insert (lower a) unique_addresses) rest)"

definition load_unique_addresses :: "row list \<Rightarrow> error + string set" where
  "load_unique_addresses rows = load_unique_addresses_loop {} rows"

text \<open>
  \<^verbatim>\<open>stats_dict = {item['address'].lower(): item for item in stats}\<close>

  A later item with the same address replaces an earlier one.  An item that is not an
  object cannot be indexed by a string (\<open>TypeError\<close>), and an address that is not a
  string has no \<open>lower\<close> (\<open>AttributeError\<close>).
\<close>

type_synonym stat = "(string \<times> json) list"

fun load_miner_stats_loop :: "(string \<rightharpoonup> stat) \<Rightarrow> json list \<Rightarrow> error + (string \<rightharpoonup> stat)" where
  "load_miner_stats_loop stats_dict [] = Inr stats_dict"
| "load_miner_stats_loop stats_dict (JObj item # rest) =
     (case getitem item ''address'' of
        Inl e \<Rightarrow> Inl e
      | Inr (JStr a) \<Rightarrow> load_miner_stats_loop (stats_dict(lower a \<mapsto> item)) rest
      | Inr _ \<Rightarrow> Inl AttributeError)"
| "load_miner_stats_loop stats_dict (_ # rest) = Inl TypeError"

definition load_miner_stats :: "json list \<Rightarrow> error + (string \<rightharpoonup> stat)" where
  "load_miner_stats stats = load_miner_stats_loop Map.empty stats"

section \<open>filter\_and\_update\_rewards.py: the reconciliation loop\<close>

text \<open>The state of the loop of \<open>process_miner_rewards\<close>: the list and the three running totals.\<close>

record loop_state =
  processed_data :: "row list"
  total_waifu_rewards :: pyfloat
  total_llama_rewards :: pyfloat
  total_base_tokens :: pyfloat

definition init_state :: loop_state where
  "init_state =
     \<lparr>processed_data = [], total_waifu_rewards = Fin 0, total_llama_rewards = Fin 0,
      total_base_tokens = Fin 0\<rparr>"

text \<open>
  \<^verbatim>\<open>json_total_tokens = float(stats['revisedTokens']) if 'revisedTokens' in stats
                                  else float(stats['totalTokens'])\<close>
\<close>

definition json_total_tokens :: "float_ops \<Rightarrow> stat \<Rightarrow> error + pyfloat" where
  "json_total_tokens fl stats =
     (if contains_key stats ''revisedTokens''
      then bindE (getitem stats ''revisedTokens'') (py_float fl)
      else bindE (getitem stats ''totalTokens'') (py_float fl))"

text \<open>
  \<^verbatim>\<open>processed_data.append(out)
  total_waifu_rewards += float(row['S2 waifu_reward_tokens'])
  total_llama_rewards += float(row['S2 llama_reward_tokens'])
  total_base_tokens += base\<close>

  the three statements that end the two branches of step 3, where \<open>base\<close> is already a
  float.
\<close>

definition append_and_count ::
  "float_ops \<Rightarrow> row \<Rightarrow> row \<Rightarrow> pyfloat \<Rightarrow> loop_state \<Rightarrow> error + loop_state" where
  "append_and_count fl out r base st =
     bindE (float_field fl r ''S2 waifu_reward_tokens'') (\<lambda>w.
     bindE (float_field fl r ''S2 llama_reward_tokens'') (\<lambda>l.
       Inr \<lparr>processed_data = processed_data st @ [out],
            total_waifu_rewards = add_float fl (total_waifu_rewards st) w,
            total_llama_rewards = add_float fl (total_llama_rewards st) l,
            total_base_tokens = add_float fl (total_base_tokens st) base\<rparr>))"

text \<open>Step 3 for an address that is in \<open>miner_stats\<close> (lines 64 to 85).\<close>

definition compare_with_stats ::
  "float_ops \<Rightarrow> stat \<Rightarrow> row \<Rightarrow> loop_state \<Rightarrow> error + loop_state" where
  "compare_with_stats fl stats r st =
     bindE (float_field fl r ''S2 Total Base Tokens'') (\<lambda>csv_total_tokens.
     bindE (json_total_tokens fl stats) (\<lambda>json_total.
       if float_ge json_total csv_total_tokens
       then append_and_count fl r r csv_total_tokens st
       else append_and_count fl
              (AList.update ''S2 Total Base Tokens'' (str_float fl json_total) r)
              r json_total st))"

text \<open>The \<open>else\<close> of step 3 (lines 87 to 91): the address is not in \<open>miner_stats\<close>.\<close>

definition keep_original :: "float_ops \<Rightarrow> row \<Rightarrow> loop_state \<Rightarrow> error + loop_state" where
  "keep_original fl r st =
     bindE (float_field fl r ''S2 waifu_reward_tokens'') (\<lambda>w.
     bindE (float_field fl r ''S2 llama_reward_tokens'') (\<lambda>l.
     bindE (float_field fl r ''S2 Total Base Tokens'') (\<lambda>b.
       Inr \<lparr>processed_data = processed_data st @ [r],
            total_waifu_rewards = add_float fl (total_waifu_rewards st) w,
            total_llama_rewards = add_float fl (total_llama_rewards st) l,
            total_base_tokens = add_float fl (total_base_tokens st) b\<rparr>)))"

text \<open>The body of the loop (lines 52 to 91); \<open>continue\<close> returns the state as it is.\<close>

definition process_row ::
  "float_ops \<Rightarrow> string set \<Rightarrow> (string \<rightharpoonup> stat) \<Rightarrow> row \<Rightarrow> loop_state \<Rightarrow> error + loop_state" where
  "process_row fl unique_addresses miner_stats r st =
     bindE (getitem r ''Address'') (\<lambda>a.
       let address = lower a in
       if \<not> is_valid_ethereum_address address then Inr st
       else if address \<in> unique_addresses then Inr st
       else (case miner_stats address of
               Some stats \<Rightarrow> compare_with_stats fl stats r st
             | None \<Rightarrow> keep_original fl r st))"

fun process_rows ::
  "float_ops \<Rightarrow> string set \<Rightarrow> (string \<rightharpoonup> stat) \<Rightarrow> row list \<Rightarrow> loop_state \<Rightarrow> error + loop_state" where
  "process_rows fl unique_addresses miner_stats [] st = Inr st"
| "process_rows fl unique_addresses miner_stats (r # rest) st =
     (case process_row fl unique_addresses miner_stats r st of
        Inl e \<Rightarrow> Inl e
      | Inr st' \<Rightarrow> process_rows fl unique_addresses miner_stats rest st')"

section \<open>filter\_and\_update\_rewards.py: threshold, totals and output\<close>

text \<open>
  \<^verbatim>\<open>filtered_data = [row for row in processed_data
                   if float(row['S2 Total Base Tokens']) >= 1]\<close>

  The comparison of a float with the integer 1 is exact, so it is the comparison with 1.0.
\<close>

fun filter_threshold :: "float_ops \<Rightarrow> row list \<Rightarrow> error + row list" where
  "filter_threshold fl [] = Inr []"
| "filter_threshold fl (r # rest) =
     (case float_field fl r ''S2 Total Base Tokens'' of
        Inl e \<Rightarrow> Inl e
      | Inr x \<Rightarrow>
          (case filter_threshold fl rest of
             Inl e \<Rightarrow> Inl e
           | Inr kept \<Rightarrow> Inr (if float_ge x (Fin 1) then r # kept else kept)))"

text \<open>
  \<^verbatim>\<open>sum(float(row[k]) for row in filtered_data)\<close>

  \<open>sum\<close> of no element is the integer 0, which the program computes and never uses;
  the model has 0.0 there.
\<close>

fun float_column :: "float_ops \<Rightarrow> string \<Rightarrow> row list \<Rightarrow> error + pyfloat list" where
  "float_column fl k [] = Inr []"
| "float_column fl k (r # rest) =
     (case float_field fl r k of
        Inl e \<Rightarrow> Inl e
      | Inr x \<Rightarrow>
          (case float_column fl k rest of
             Inl e \<Rightarrow> Inl e
           | Inr xs \<Rightarrow> Inr (x # xs)))"

definition sum_column :: "float_ops \<Rightarrow> string \<Rightarrow> row list \<Rightarrow> error + pyfloat" where
  "sum_column fl k rows =
     bindE (float_column fl k rows) (\<lambda>xs. Inr (if xs = [] then Fin 0 else sum_float fl xs))"

text \<open>
  \<open>csv.DictWriter\<close> with its defaults: a dictionary with a key that is not a field name
  raises \<open>ValueError\<close>, a field the dictionary lacks is written as the empty text.  A
  written line is the list of its cell texts, in the order of the field names.
\<close>

definition row_cells :: "string list \<Rightarrow> row \<Rightarrow> string list" where
  "row_cells fieldnames rowdict =
     map (\<lambda>key. case map_of rowdict key of Some v \<Rightarrow> v | None \<Rightarrow> []) fieldnames"

definition dict_to_list :: "string list \<Rightarrow> row \<Rightarrow> error + string list" where
  "dict_to_list fieldnames rowdict =
     (if list_all (\<lambda>k. k \<in> set fieldnames) (map fst rowdict)
      then Inr (row_cells fieldnames rowdict)
      else Inl ValueError)"

fun writerows :: "string list \<Rightarrow> row list \<Rightarrow> error + string list list" where
  "writerows fieldnames [] = Inr []"
| "writerows fieldnames (r # rest) =
     (case dict_to_list fieldnames r of
        Inl e \<Rightarrow> Inl e
      | Inr line \<Rightarrow>
          (case writerows fieldnames rest of
             Inl e \<Rightarrow> Inl e
           | Inr ls \<Rightarrow> Inr (line # ls)))"

text \<open>
  What a run that returns leaves behind: the paths of the files it has opened for writing
  (\<open>open(output_path, 'w')\<close> creates the file, or empties it, before
  \<open>filtered_data\<close> is tested), the lines written to the file, and the lines printed.
  The function itself returns \<open>None\<close> on every path.
\<close>

record outcome =
  created :: "string list"
  written :: "string list list"
  printed :: "string list"

definition total_row :: "float_ops \<Rightarrow> pyfloat \<Rightarrow> pyfloat \<Rightarrow> pyfloat \<Rightarrow> row" where
  "total_row fl sum_waifu sum_llama sum_base =
     [(''Address'', ''TOTAL''),
      (''S2 waifu_reward_tokens'', str_float fl sum_waifu),
      (''S2 llama_reward_tokens'', str_float fl sum_llama),
      (''S2 Total Base Tokens'', str_float fl sum_base)]"

definition blank_row :: "string list \<Rightarrow> row" where
  "blank_row fieldnames = map (\<lambda>field. (field, [])) fieldnames"

text \<open>Lines 102 to 127.\<close>

definition write_output ::
  "float_ops \<Rightarrow> row list \<Rightarrow> pyfloat \<Rightarrow> pyfloat \<Rightarrow> pyfloat \<Rightarrow> string \<Rightarrow> error + outcome" where
  "write_output fl filtered_data sum_waifu sum_llama sum_base output_path =
     (case filtered_data of
        first # _ \<Rightarrow>
          (let fieldnames = map fst first in
           bindE (writerows fieldnames filtered_data) (\<lambda>body.
           bindE (dict_to_list fieldnames (blank_row fieldnames)) (\<lambda>blank.
           bindE (dict_to_list fieldnames (total_row fl sum_waifu sum_llama sum_base)) (\<lambda>total.
             Inr \<lparr>created = [output_path], written = fieldnames # body @ [blank, total],
                  printed =
                    [''Processed data written to '' @ output_path,
                     ''Total S2 waifu rewards: '' @ str_float fl sum_waifu,
                     ''Total S2 llama rewards: '' @ str_float fl sum_llama,
                     ''Total S2 base tokens: '' @ str_float fl sum_base]\<rparr>))))
      | [] \<Rightarrow> Inr \<lparr>created = [output_path], written = [], printed = [''No data to write.'']\<rparr>)"

text \<open>Steps 1 to 4: the list \<open>filtered_data\<close> of line 94.\<close>

definition filtered_rows ::
  "float_ops \<Rightarrow> string set \<Rightarrow> (string \<rightharpoonup> stat) \<Rightarrow> row list \<Rightarrow> error + row list" where
  "filtered_rows fl unique_addresses miner_stats input_rewards =
     bindE (process_rows fl unique_addresses miner_stats input_rewards init_state) (\<lambda>st.
       filter_threshold fl (processed_data st))"

text \<open>Lines 96 to 127: the totals are computed again from \<open>filtered_data\<close>, then written.\<close>

definition aggregate_and_write :: "float_ops \<Rightarrow> row list \<Rightarrow> string \<Rightarrow> error + outcome" where
  "aggregate_and_write fl filtered_data output_path =
     bindE (sum_column fl ''S2 waifu_reward_tokens'' filtered_data) (\<lambda>sum_waifu.
     bindE (sum_column fl ''S2 llama_reward_tokens'' filtered_data) (\<lambda>sum_llama.
     bindE (sum_column fl ''S2 Total Base Tokens'' filtered_data) (\<lambda>sum_base.
       write_output fl filtered_data sum_waifu sum_llama sum_base output_path)))"

text \<open>
  \<open>process_miner_rewards\<close>: the three inputs are the rows of the rewards file, the rows
  of the unique addresses file and the items of the miner stats file.
\<close>

definition process_miner_rewards ::
  "float_ops \<Rightarrow> row list \<Rightarrow> row list \<Rightarrow> json list \<Rightarrow> string \<Rightarrow> error + outcome" where
  "process_miner_rewards fl input_rewards unique_rows miner_stats_items output_path =
     bindE (load_unique_addresses unique_rows) (\<lambda>unique_addresses.
     bindE (load_miner_stats miner_stats_items) (\<lambda>miner_stats.
     bindE (filtered_rows fl unique_addresses miner_stats input_rewards) (\<lambda>filtered_data.
       aggregate_and_write fl filtered_data output_path)))"

section \<open>An instance of the float operations\<close>

text \<open>
  The theorems below hold for every \<open>float_ops\<close>.  The examples are evaluated with
  \<open>exact_floats\<close>, which reads and writes plain decimal literals and adds without
  rounding.  It agrees with CPython wherever CPython does not round: on the integers of
  magnitude below \<open>2^53\<close> and their sums, on the order of two decimal literals that are not
  rounded to the same number, and on the text of an integral float below \<open>10^16\<close>.
\<close>

definition digit_of :: "char \<Rightarrow> int option" where
  "digit_of c = map_of (zip ''0123456789'' [0, 1, 2, 3, 4, 5, 6, 7, 8, 9]) c"

fun read_digits :: "int \<Rightarrow> string \<Rightarrow> int option" where
  "read_digits n [] = Some n"
| "read_digits n (c # cs) =
     (case digit_of c of None \<Rightarrow> None | Some d \<Rightarrow> read_digits (10 * n + d) cs)"

text \<open>\<open>digits\<close> or \<open>digits.digits\<close>, both parts non-empty.\<close>

definition read_unsigned :: "string \<Rightarrow> rat option" where
  "read_unsigned s =
     (let ip = takeWhile (\<lambda>c. c \<noteq> CHR ''.'') s;
          rest = dropWhile (\<lambda>c. c \<noteq> CHR ''.'') s;
          fp = drop 1 rest
      in if ip = [] \<or> (rest \<noteq> [] \<and> fp = []) then None
         else (case (read_digits 0 ip, read_digits 0 fp) of
                 (Some i, Some f) \<Rightarrow> Some (of_int i + of_int f / of_int (10 ^ length fp))
               | _ \<Rightarrow> None))"

definition exact_float_str :: "string \<Rightarrow> pyfloat option" where
  "exact_float_str s =
     (case s of
        [] \<Rightarrow> None
      | c # cs \<Rightarrow>
          if c = CHR ''-''
          then (case read_unsigned cs of
                  None \<Rightarrow> None
                | Some q \<Rightarrow> Some (if q = 0 then NegZero else Fin (- q)))
          else map_option Fin (read_unsigned s))"

fun digits :: "nat \<Rightarrow> string" where
  "digits n =
     (if n < 10 then [''0123456789'' ! n]
      else digits (n div 10) @ [''0123456789'' ! (n mod 10)])"

text \<open>At most \<open>fuel\<close> digits of \<open>r / d\<close> after the point, for \<open>r < d\<close>.\<close>

fun fraction_digits :: "nat \<Rightarrow> nat \<Rightarrow> nat \<Rightarrow> string" where
  "fraction_digits 0 r d = []"
| "fraction_digits (Suc fuel) r d =
     (if r = 0 then []
      else (''0123456789'' ! ((10 * r) div d)) # fraction_digits fuel ((10 * r) mod d) d)"

definition exact_str_float :: "pyfloat \<Rightarrow> string" where
  "exact_str_float x =
     (case x of
        Fin q \<Rightarrow>
          (let n = nat \<bar>fst (quotient_of q)\<bar>; d = nat (snd (quotient_of q));
               fd = fraction_digits 17 (n mod d) d
           in (if q < 0 then ''-'' else []) @ digits (n div d) @ ''.'' @
              (if fd = [] then ''0'' else fd))
      | NegZero \<Rightarrow> ''-0.0''
      | PInf \<Rightarrow> ''inf''
      | NInf \<Rightarrow> ''-inf''
      | NaN \<Rightarrow> ''nan'')"

fun exact_add :: "pyfloat \<Rightarrow> pyfloat \<Rightarrow> pyfloat" where
  "exact_add NaN y = NaN"
| "exact_add x NaN = NaN"
| "exact_add PInf NInf = NaN"
| "exact_add NInf PInf = NaN"
| "exact_add PInf y = PInf"
| "exact_add x PInf = PInf"
| "exact_add NInf y = NInf"
| "exact_add x NInf = NInf"
| "exact_add NegZero y = y"
| "exact_add x NegZero = x"
| "exact_add (Fin a) (Fin b) = Fin (a + b)"

definition exact_floats :: float_ops where
  "exact_floats =
     \<lparr>float_str = exact_float_str,
      float_int = (\<lambda>n. Some (Fin (of_int n))),
      str_float = exact_str_float,
      add_float = exact_add,
      sum_float = foldl exact_add (Fin 0)\<rparr>"

section \<open>Values of a pandas column\<close>

text \<open>
  A cell of a \<open>DataFrame\<close> read by \<open>pd.read_csv\<close> is a string, an integer or a
  float; a missing cell is the float NaN.
\<close>

datatype pdvalue = PStr string | PInt int | PFloat pyfloat

section \<open>collect\_unique\_addresses.py\<close>

text \<open>
  \<^verbatim>\<open>df[0].dtype == 'object' and df[0].str.contains(',').any()\<close>

  A column that holds a string has the dtype \<open>object\<close>; \<open>str.contains\<close> is NaN on a
  cell that is not a string, and \<open>any\<close> skips it.
\<close>

fun contains_comma :: "pdvalue \<Rightarrow> bool" where
  "contains_comma (PStr s) = (CHR '','' \<in> set s)"
| "contains_comma v = False"

text \<open>
  \<^verbatim>\<open>df[0].str.split(',', expand=True)[0]\<close>

  the first of the pieces of every string, which is the text before its first comma; a
  cell that is not a string stays NaN.
\<close>

fun split_first :: "pdvalue \<Rightarrow> pdvalue" where
  "split_first (PStr s) = PStr (takeWhile (\<lambda>c. c \<noteq> CHR '','') s)"
| "split_first v = PFloat NaN"

definition sybil_addresses :: "pdvalue list \<Rightarrow> pdvalue list" where
  "sybil_addresses column0 =
     (if list_ex contains_comma column0 then map split_first column0 else column0)"

text \<open>\<^verbatim>\<open>[addr.lower() for addr in addresses if isinstance(addr, str)]\<close>\<close>

fun lowered_strings :: "pdvalue list \<Rightarrow> string list" where
  "lowered_strings [] = []"
| "lowered_strings (PStr s # rest) = lower s # lowered_strings rest"
| "lowered_strings (v # rest) = lowered_strings rest"

text \<open>The loop over \<open>sybil_files\<close>; a file is given by its first column.\<close>

fun sybil_loop :: "string set \<Rightarrow> pdvalue list list \<Rightarrow> string set" where
  "sybil_loop unique_addresses [] = unique_addresses"
| "sybil_loop unique_addresses (column0 # files) =
     sybil_loop (unique_addresses \<union> set (lowered_strings (sybil_addresses column0))) files"

text \<open>
  \<open>main\<close>, up to the set it saves.  \<open>rewards\<close> is the \<open>Address\<close> column of the
  claimed-rewards file, or \<open>None\<close> when the file is missing, cannot be read or has no
  such column: the three cases in which the program prints a message and goes on.
\<close>

definition collect_unique_addresses :: "pdvalue list list \<Rightarrow> pdvalue list option \<Rightarrow> string set" where
  "collect_unique_addresses sybil_files rewards =
     (let unique_addresses = sybil_loop {} sybil_files
      in case rewards of
           Some rewards_addresses \<Rightarrow> unique_addresses \<union> set (lowered_strings rewards_addresses)
         | None \<Rightarrow> unique_addresses)"

section \<open>filter\_csv.py\<close>

text \<open>
  A \<open>DataFrame\<close>: the column names and the rows, every row with one cell per column.
\<close>

record frame =
  columns :: "string list"
  cells :: "pdvalue list list"

text \<open>
  The truth value \<open>DataFrame.any(axis=1)\<close> gives a cell: a number is true when it is
  not zero, NaN is skipped, a string is true when it is not empty.
\<close>

fun truthy :: "pdvalue \<Rightarrow> bool" where
  "truthy (PStr s) = (s \<noteq> [])"
| "truthy (PInt n) = (n \<noteq> 0)"
| "truthy (PFloat (Fin q)) = (q \<noteq> 0)"
| "truthy (PFloat NegZero) = False"
| "truthy (PFloat PInf) = True"
| "truthy (PFloat NInf) = True"
| "truthy (PFloat NaN) = False"

text \<open>\<open>df[cols].any(axis=1)\<close> for one row.\<close>

definition any_of :: "string list \<Rightarrow> string list \<Rightarrow> pdvalue list \<Rightarrow> bool" where
  "any_of column_names cols r =
     list_ex (\<lambda>col. case map_of (zip column_names r) col of Some v \<Rightarrow> truthy v | None \<Rightarrow> False) cols"

definition token_columns :: "string list \<Rightarrow> string list" where
  "token_columns column_names =
     filter (\<lambda>col. col \<notin> set [''Address'', ''S1 Llama Points'', ''S1 Waifu Points'']) column_names"

definition s1_columns :: "string list" where
  "s1_columns = [''S1 Total Base Tokens'', ''S1 Total Bonus Tokens'']"

definition final_filter :: "string list \<Rightarrow> pdvalue list \<Rightarrow> bool" where
  "final_filter column_names r =
     (any_of column_names (token_columns column_names) r \<and> any_of column_names s1_columns r)"

text \<open>
  \<open>filter_airdrop_data\<close>, from the frame read to the frame written.  Selecting a column
  the frame does not have raises \<open>KeyError\<close>.
\<close>

definition filter_airdrop_data :: "frame \<Rightarrow> error + frame" where
  "filter_airdrop_data df =
     (case filter (\<lambda>col. col \<notin> set (columns df)) s1_columns of
        missing # _ \<Rightarrow> Inl (KeyError missing)
      | [] \<Rightarrow> Inr (df\<lparr>cells := filter (final_filter (columns df)) (cells df)\<rparr>))"

text \<open>
  \<open>to_csv\<close> followed by \<open>csv.DictReader\<close>: the rows of a frame as the dictionaries
  \<open>process_miner_rewards\<close> reads.  A float is written as its \<open>str\<close>, a missing cell
  as the empty text, an integer in decimal.
\<close>

fun int_text :: "int \<Rightarrow> string" where
  "int_text n = (if n < 0 then ''-'' @ digits (nat (- n)) else digits (nat n))"

fun csv_text :: "float_ops \<Rightarrow> pdvalue \<Rightarrow> string" where
  "csv_text fl (PStr s) = s"
| "csv_text fl (PInt n) = int_text n"
| "csv_text fl (PFloat NaN) = []"
| "csv_text fl (PFloat x) = str_float fl x"

definition csv_row :: "float_ops \<Rightarrow> string list \<Rightarrow> pdvalue list \<Rightarrow> row" where
  "csv_row fl column_names r = zip column_names (map (csv_text fl) r)"

definition csv_rows :: "float_ops \<Rightarrow> frame \<Rightarrow> row list" where
  "csv_rows fl df = map (csv_row fl (columns df)) (cells df)"

section \<open>Predicates used in the statements\<close>

text \<open>A float is at least 1: a finite number from 1 up, or plus infinity; never NaN.\<close>

definition at_least_one :: "pyfloat \<Rightarrow> bool" where
  "at_least_one x = (case x of Fin q \<Rightarrow> 1 \<le> q | PInf \<Rightarrow> True | _ \<Rightarrow> False)"

text \<open>The base-token total of a record reads as a float that is at least 1.\<close>

definition base_at_least_one :: "float_ops \<Rightarrow> row \<Rightarrow> bool" where
  "base_at_least_one fl r =
     (case float_field fl r ''S2 Total Base Tokens'' of
        Inr x \<Rightarrow> at_least_one x
      | Inl e \<Rightarrow> False)"

text \<open>
  The outcome of step 3 for a record whose local total is \<open>local\<close> and whose remote
  total is \<open>remote\<close>: the record as it is when the remote total is at least the local
  one, and otherwise the record with the text of the remote total in its base-token field.
\<close>

definition reconciled_total :: "pyfloat \<Rightarrow> pyfloat \<Rightarrow> pyfloat" where
  "reconciled_total local remote = (if float_ge remote local then local else remote)"

definition reconciled_row :: "float_ops \<Rightarrow> row \<Rightarrow> pyfloat \<Rightarrow> pyfloat \<Rightarrow> row" where
  "reconciled_row fl r local remote =
     (if float_ge remote local then r
      else AList.update ''S2 Total Base Tokens'' (str_float fl remote) r)"


definition total_cells :: "float_ops \<Rightarrow> string list \<Rightarrow> pyfloat \<Rightarrow> pyfloat \<Rightarrow> pyfloat \<Rightarrow> string list" where
  "total_cells fl fieldnames sum_waifu sum_llama sum_base =
     map (\<lambda>key. if key = ''Address'' then ''TOTAL''
               else if key = ''S2 waifu_reward_tokens'' then str_float fl sum_waifu
               else if key = ''S2 llama_reward_tokens'' then str_float fl sum_llama
               else if key = ''S2 Total Base Tokens'' then str_float fl sum_base
               else [])
       fieldnames"

text \<open>A record of the rewards file with the four columns the program reads, for the examples.\<close>

definition candidate :: "string \<Rightarrow> string \<Rightarrow> string \<Rightarrow> string \<Rightarrow> row" where
  "candidate address waifu llama base =
     [(''Address'', address), (''S2 waifu_reward_tokens'', waifu),
      (''S2 llama_reward_tokens'', llama), (''S2 Total Base Tokens'', base)]"

text \<open>
  The text of a cell before its first comma; the lower-cased first pieces of the strings
  of a column, and the lower-cased strings of a column.
\<close>

definition first_piece :: "string \<Rightarrow> string" where
  "first_piece s = takeWhile (\<lambda>c. c \<noteq> CHR '','') s"

definition first_pieces :: "pdvalue list \<Rightarrow> string set" where
  "first_pieces column0 = {lower (first_piece s) | s. PStr s \<in> set column0}"

definition whole_strings :: "pdvalue list \<Rightarrow> string set" where
  "whole_strings col = {lower s | s. PStr s \<in> set col}"

text \<open>
  The records one candidate contributes to \<open>filtered_data\<close>: what steps 1 to 4 produce
  from the rewards file that holds this row only (no record when they raise).
\<close>

definition survivors_of :: "float_ops \<Rightarrow> string set \<Rightarrow> (string \<rightharpoonup> stat) \<Rightarrow> row \<Rightarrow> row list" where
  "survivors_of fl unique_addresses miner_stats r =
     (case filtered_rows fl unique_addresses miner_stats [r] of Inr out \<Rightarrow> out | Inl e \<Rightarrow> [])"

section \<open>Sequencing\<close>

lemma bindE_Inr [simp]: "bindE (Inr x) f = f x"
  by (simp add: bindE_def)

lemma bindE_Inl [simp]: "bindE (Inl e) f = Inl e"
  by (simp add: bindE_def)

lemma bindE_eq_Inr: "bindE m f = Inr y \<longleftrightarrow> (\<exists>x. m = Inr x \<and> f x = Inr y)"
  by (cases m) simp_all


section \<open>Address validation\<close>

text \<open>
  What the pattern accepts: \<open>0x\<close>, forty characters of the class, and then either
  the end of the string or one final line feed.
\<close>

lemma is_valid_ethereum_address_iff:
  "is_valid_ethereum_address a \<longleftrightarrow>
     (\<exists>h. length h = 40 \<and> list_all hex_class h \<and>
          (a = ''0x'' @ h \<or> a = ''0x'' @ h @ [CHR 0x0A]))"
proof
  assume v: "is_valid_ethereum_address a"
  let ?h = "take 40 (drop 2 a)"
  have split: "a = take 2 a @ ?h @ drop 42 a"
  proof -
    have "drop 2 a = ?h @ drop 40 (drop 2 a)"
      by (rule append_take_drop_id[symmetric])
    then have "a = take 2 a @ ?h @ drop 40 (drop 2 a)"
      by (metis append_take_drop_id)
    moreover have "drop 40 (drop 2 a) = drop 42 a" by simp
    ultimately show ?thesis by (simp only:)
  qed
  from v have p: "take 2 a = ''0x''" and l: "length ?h = 40" and c: "list_all hex_class ?h"
    and d: "drop 42 a = [] \<or> drop 42 a = [CHR 0x0A]"
    by (simp_all add: is_valid_ethereum_address_def dollar_def)
  from d split p have "a = ''0x'' @ ?h \<or> a = ''0x'' @ ?h @ [CHR 0x0A]"
    by (metis append_Nil2)
  with l c show "\<exists>h. length h = 40 \<and> list_all hex_class h \<and>
          (a = ''0x'' @ h \<or> a = ''0x'' @ h @ [CHR 0x0A])"
    by blast
next
  assume "\<exists>h. length h = 40 \<and> list_all hex_class h \<and>
          (a = ''0x'' @ h \<or> a = ''0x'' @ h @ [CHR 0x0A])"
  then obtain h where "length h = 40" "list_all hex_class h"
    "a = ''0x'' @ h \<or> a = ''0x'' @ h @ [CHR 0x0A]" by blast
  then show "is_valid_ethereum_address a"
    by (auto simp: is_valid_ethereum_address_def dollar_def)
qed

text \<open>
  C3.  The claim wants \<open>is_valid_ethereum_address\<close> true exactly on \<open>0x\<close> followed by
  forty hexadecimal characters, 42 characters in all, and false on every string of length
  43.  The pattern ends with \<open>$\<close>, which also matches before a final line feed: the
  43-character string made of a well-formed address and a line feed is accepted.
\<close>

theorem is_valid_ethereum_address_trailing_newline:
  "is_valid_ethereum_address (''0xaaaaaaaaaaaaaaaaaaaaaaaaaaaaaaaaaaaaaaaa'' @ [CHR 0x0A]) \<and>
   length (''0xaaaaaaaaaaaaaaaaaaaaaaaaaaaaaaaaaaaaaaaa'' @ [CHR 0x0A]) = 43"
  by code_simp

section \<open>The threshold\<close>

lemma float_ge_one: "float_ge x (Fin 1) = at_least_one x"
  by (cases x) (auto simp: float_ge_def at_least_one_def)

lemma filter_threshold_filter:
  "filter_threshold fl rows = Inr kept \<Longrightarrow> kept = filter (base_at_least_one fl) rows"
proof (induction rows arbitrary: kept)
  case Nil
  then show ?case by simp
next
  case (Cons r rest)
  from Cons.prems obtain x kept' where
    x: "float_field fl r ''S2 Total Base Tokens'' = Inr x" and
    rest: "filter_threshold fl rest = Inr kept'" and
    kept: "kept = (if float_ge x (Fin 1) then r # kept' else kept')"
    by (auto split: sum.splits)
  from Cons.IH[OF rest] have "kept' = filter (base_at_least_one fl) rest" .
  moreover from x have "base_at_least_one fl r = float_ge x (Fin 1)"
    by (simp add: base_at_least_one_def float_ge_one)
  ultimately show ?case using kept by simp
qed

text \<open>
  C4.  The threshold of step 4 is inclusive at 1: when the list comprehension of line 94
  returns, it has kept, in their order, exactly the records whose base-token total is a
  float at least 1; a record is in the result if and only if it was a processed record and
  its total is at least 1.
\<close>

theorem threshold_inclusive_at_one:
  assumes "filter_threshold fl rows = Inr kept"
  shows "kept = filter (base_at_least_one fl) rows \<and>
         (r \<in> set kept \<longleftrightarrow> r \<in> set rows \<and> base_at_least_one fl r)"
  using filter_threshold_filter[OF assms] by auto

text \<open>A record with total 1.0 is kept and a record with total 0.999999 is dropped.\<close>

theorem threshold_inclusive_at_one_witness:
  "filter_threshold exact_floats
     [[(''Address'', ''0xaaaaaaaaaaaaaaaaaaaaaaaaaaaaaaaaaaaaaaaa''),
       (''S2 Total Base Tokens'', ''1.0'')],
      [(''Address'', ''0xbbbbbbbbbbbbbbbbbbbbbbbbbbbbbbbbbbbbbbbb''),
       (''S2 Total Base Tokens'', ''0.999999'')]]
    = Inr [[(''Address'', ''0xaaaaaaaaaaaaaaaaaaaaaaaaaaaaaaaaaaaaaaaa''),
            (''S2 Total Base Tokens'', ''1.0'')]] \<and>
   base_at_least_one exact_floats
     [(''Address'', ''0xaaaaaaaaaaaaaaaaaaaaaaaaaaaaaaaaaaaaaaaa''),
      (''S2 Total Base Tokens'', ''1.0'')] \<and>
   \<not> base_at_least_one exact_floats
     [(''Address'', ''0xbbbbbbbbbbbbbbbbbbbbbbbbbbbbbbbbbbbbbbbb''),
      (''S2 Total Base Tokens'', ''0.999999'')]"
proof -
  let ?a = "[(''Address'', ''0xaaaaaaaaaaaaaaaaaaaaaaaaaaaaaaaaaaaaaaaa''),
             (''S2 Total Base Tokens'', ''1.0'')]"
  let ?b = "[(''Address'', ''0xbbbbbbbbbbbbbbbbbbbbbbbbbbbbbbbbbbbbbbbb''),
             (''S2 Total Base Tokens'', ''0.999999'')]"
  have h: "filter_threshold exact_floats [?a, ?b] = Inr [?a]"
    by code_simp
  from threshold_inclusive_at_one[OF h, of ?a] have a: "base_at_least_one exact_floats ?a"
    by simp
  from threshold_inclusive_at_one[OF h, of ?b] have b: "\<not> base_at_least_one exact_floats ?b"
    by simp
  from h a b show ?thesis by simp
qed

section \<open>Step 3: reconciliation with the miner stats\<close>

lemma process_row_matched:
  assumes "getitem r ''Address'' = Inr a"
    and "is_valid_ethereum_address (lower a)"
    and "lower a \<notin> unique_addresses"
    and "miner_stats (lower a) = Some stats"
  shows "process_row fl unique_addresses miner_stats r st = compare_with_stats fl stats r st"
  using assms by (simp add: process_row_def)

lemma process_row_unmatched:
  assumes "getitem r ''Address'' = Inr a"
    and "is_valid_ethereum_address (lower a)"
    and "lower a \<notin> unique_addresses"
    and "miner_stats (lower a) = None"
  shows "process_row fl unique_addresses miner_stats r st = keep_original fl r st"
  using assms by (simp add: process_row_def)

lemma compare_with_stats_result:
  assumes "float_field fl r ''S2 Total Base Tokens'' = Inr c"
    and "json_total_tokens fl stats = Inr j"
    and "float_field fl r ''S2 waifu_reward_tokens'' = Inr w"
    and "float_field fl r ''S2 llama_reward_tokens'' = Inr l"
  shows "compare_with_stats fl stats r st =
           Inr \<lparr>processed_data = processed_data st @ [reconciled_row fl r c j],
                total_waifu_rewards = add_float fl (total_waifu_rewards st) w,
                total_llama_rewards = add_float fl (total_llama_rewards st) l,
                total_base_tokens = add_float fl (total_base_tokens st) (reconciled_total c j)\<rparr>"
  using assms
  by (simp add: compare_with_stats_def append_and_count_def reconciled_row_def reconciled_total_def)

lemma append_and_count_Inr:
  "append_and_count fl out r b st = Inr st' \<Longrightarrow> processed_data st' = processed_data st @ [out]"
  by (auto simp: append_and_count_def bindE_eq_Inr)

lemma compare_with_stats_Inr:
  assumes "compare_with_stats fl stats r st = Inr st'"
  shows "\<exists>c j. float_field fl r ''S2 Total Base Tokens'' = Inr c \<and>
               json_total_tokens fl stats = Inr j \<and>
               processed_data st' = processed_data st @ [reconciled_row fl r c j]"
  using assms
  by (auto simp: compare_with_stats_def bindE_eq_Inr reconciled_row_def
           dest: append_and_count_Inr split: if_splits)

lemma keep_original_Inr:
  "keep_original fl r st = Inr st' \<Longrightarrow> processed_data st' = processed_data st @ [r]"
  by (auto simp: keep_original_def bindE_eq_Inr)

lemma float_field_key:
  "float_field fl r k = Inr x \<Longrightarrow> k \<in> fst ` set r"
proof -
  assume "float_field fl r k = Inr x"
  then obtain v where "map_of r k = Some v"
    by (auto simp: float_field_def getitem_def bindE_eq_Inr split: option.splits)
  then have "k \<in> dom (map_of r)" by blast
  then show ?thesis by (simp add: dom_map_of_conv_image_fst)
qed

lemma reconciled_row_frame:
  assumes "float_field fl r ''S2 Total Base Tokens'' = Inr c"
  shows "map fst (reconciled_row fl r c j) = map fst r"
    and "k \<noteq> ''S2 Total Base Tokens'' \<Longrightarrow> map_of (reconciled_row fl r c j) k = map_of r k"
  using float_field_key[OF assms]
  by (auto simp: reconciled_row_def update_keys update_conv')

lemma reconciled_total_smaller:
  assumes "float_rank c \<noteq> None" and "float_rank j \<noteq> None"
  shows "float_ge c (reconciled_total c j) \<and> float_ge j (reconciled_total c j) \<and>
         (reconciled_total c j = c \<or> reconciled_total c j = j)"
  using assms by (auto simp: reconciled_total_def float_ge_def split: option.splits prod.splits)

lemma json_total_tokens_missing:
  assumes "\<not> contains_key stats ''revisedTokens''" and "\<not> contains_key stats ''totalTokens''"
  shows "json_total_tokens fl stats = Inl (KeyError ''totalTokens'')"
  using assms by (simp add: json_total_tokens_def contains_key_def getitem_def)

lemma process_rows_append:
  "process_rows fl ua ms (xs @ ys) st =
     bindE (process_rows fl ua ms xs st) (process_rows fl ua ms ys)"
  by (induction xs arbitrary: st) (auto split: sum.splits)

text \<open>
  C1, as the code has it.  The claim says that the larger of the two totals wins.  The
  code keeps the local record when the remote total is at least the local one (line 71,
  under the comment ``If JSON value is larger, use CSV value (keep as is)'') and writes the
  remote total into the record otherwise: the reconciled total is the smaller of the two.
  For a valid address that is not excluded and has a remote record, with local total \<open>c\<close>
  and remote total \<open>j\<close>, the loop body appends \<open>reconciled_row fl r c j\<close> and counts
  \<open>reconciled_total c j\<close>: the record unchanged and \<open>c\<close> when \<open>j >= c\<close>, the record
  with the text of \<open>j\<close> as its base-token total and \<open>j\<close> otherwise.  When neither is
  NaN, the reconciled total is at most \<open>c\<close> and at most \<open>j\<close>.
\<close>

theorem reconcile_smaller_total_wins:
  assumes "getitem r ''Address'' = Inr a"
    and "is_valid_ethereum_address (lower a)"
    and "lower a \<notin> unique_addresses"
    and "miner_stats (lower a) = Some stats"
    and "float_field fl r ''S2 Total Base Tokens'' = Inr c"
    and "json_total_tokens fl stats = Inr j"
    and "float_field fl r ''S2 waifu_reward_tokens'' = Inr w"
    and "float_field fl r ''S2 llama_reward_tokens'' = Inr l"
  shows "process_row fl unique_addresses miner_stats r st =
           Inr \<lparr>processed_data = processed_data st @ [reconciled_row fl r c j],
                total_waifu_rewards = add_float fl (total_waifu_rewards st) w,
                total_llama_rewards = add_float fl (total_llama_rewards st) l,
                total_base_tokens = add_float fl (total_base_tokens st) (reconciled_total c j)\<rparr> \<and>
         (float_ge j c \<longrightarrow> reconciled_row fl r c j = r \<and> reconciled_total c j = c) \<and>
         (\<not> float_ge j c \<longrightarrow>
            reconciled_row fl r c j = AList.update ''S2 Total Base Tokens'' (str_float fl j) r \<and>
            reconciled_total c j = j) \<and>
         (float_rank c \<noteq> None \<and> float_rank j \<noteq> None \<longrightarrow>
            float_ge c (reconciled_total c j) \<and> float_ge j (reconciled_total c j))"
proof -
  have "process_row fl unique_addresses miner_stats r st = compare_with_stats fl stats r st"
    using assms(1-4) by (rule process_row_matched)
  then have "process_row fl unique_addresses miner_stats r st =
           Inr \<lparr>processed_data = processed_data st @ [reconciled_row fl r c j],
                total_waifu_rewards = add_float fl (total_waifu_rewards st) w,
                total_llama_rewards = add_float fl (total_llama_rewards st) l,
                total_base_tokens = add_float fl (total_base_tokens st) (reconciled_total c j)\<rparr>"
    using assms(5-8) by (simp add: compare_with_stats_result)
  moreover have "float_rank c \<noteq> None \<and> float_rank j \<noteq> None \<longrightarrow>
            float_ge c (reconciled_total c j) \<and> float_ge j (reconciled_total c j)"
    using reconciled_total_smaller by blast
  ultimately show ?thesis
    by (simp add: reconciled_row_def reconciled_total_def)
qed

text \<open>Local total 100 and remote total 80: the record gets the remote 80.0.\<close>

theorem reconcile_smaller_total_wins_witness:
  "process_row exact_floats {}
     [''0xaaaaaaaaaaaaaaaaaaaaaaaaaaaaaaaaaaaaaaaa'' \<mapsto>
        [(''address'', JStr ''0xAAAAAAAAAAAAAAAAAAAAAAAAAAAAAAAAAAAAAAAA''), (''revisedTokens'', JInt 80)]]
     [(''Address'', ''0xAAAAAAAAAAAAAAAAAAAAAAAAAAAAAAAAAAAAAAAA''),
      (''S2 waifu_reward_tokens'', ''2''), (''S2 llama_reward_tokens'', ''3''),
      (''S2 Total Base Tokens'', ''100'')]
     init_state =
   Inr \<lparr>processed_data =
          [[(''Address'', ''0xAAAAAAAAAAAAAAAAAAAAAAAAAAAAAAAAAAAAAAAA''),
            (''S2 waifu_reward_tokens'', ''2''), (''S2 llama_reward_tokens'', ''3''),
            (''S2 Total Base Tokens'', ''80.0'')]],
        total_waifu_rewards = Fin 2, total_llama_rewards = Fin 3,
        total_base_tokens = Fin 80\<rparr>"
proof -
  let ?a = "''0xAAAAAAAAAAAAAAAAAAAAAAAAAAAAAAAAAAAAAAAA''"
  let ?stats = "[(''address'', JStr ?a), (''revisedTokens'', JInt 80)]"
  let ?ms = "[''0xaaaaaaaaaaaaaaaaaaaaaaaaaaaaaaaaaaaaaaaa'' \<mapsto> ?stats]"
  let ?r = "[(''Address'', ?a), (''S2 waifu_reward_tokens'', ''2''),
             (''S2 llama_reward_tokens'', ''3''), (''S2 Total Base Tokens'', ''100'')]"
  have h1: "getitem ?r ''Address'' = Inr ?a" by code_simp
  have low: "lower ?a = ''0xaaaaaaaaaaaaaaaaaaaaaaaaaaaaaaaaaaaaaaaa''" by code_simp
  have h2: "is_valid_ethereum_address (lower ?a)" by code_simp
  have h3: "lower ?a \<notin> {}" by simp
  have h4: "?ms (lower ?a) = Some ?stats" unfolding low by simp
  have h5: "float_field exact_floats ?r ''S2 Total Base Tokens'' = Inr (Fin 100)" by code_simp
  have h6: "json_total_tokens exact_floats ?stats = Inr (Fin 80)" by code_simp
  have h7: "float_field exact_floats ?r ''S2 waifu_reward_tokens'' = Inr (Fin 2)" by code_simp
  have h8: "float_field exact_floats ?r ''S2 llama_reward_tokens'' = Inr (Fin 3)" by code_simp
  note t = reconcile_smaller_total_wins[where miner_stats = ?ms and unique_addresses = "{}"
      and st = init_state, OF h1 h2 h3 h4 h5 h6 h7 h8]
  have e1: "reconciled_row exact_floats ?r (Fin 100) (Fin 80) =
              [(''Address'', ?a), (''S2 waifu_reward_tokens'', ''2''),
               (''S2 llama_reward_tokens'', ''3''), (''S2 Total Base Tokens'', ''80.0'')]"
    by code_simp
  have e2: "reconciled_total (Fin 100) (Fin 80) = Fin 80" by code_simp
  have e3: "add_float exact_floats (total_waifu_rewards init_state) (Fin 2) = Fin 2"
           "add_float exact_floats (total_llama_rewards init_state) (Fin 3) = Fin 3"
           "add_float exact_floats (total_base_tokens init_state) (Fin 80) = Fin 80"
           "processed_data init_state = []"
    by code_simp+
  from t show ?thesis unfolding e1 e2 e3 by simp
qed

text \<open>
  The two examples of the claim, run through the whole of \<open>process_miner_rewards\<close>: local
  100 with remote 80 is written as 80.0, and local 80 with remote 100 stays 80; the claim
  has 100 in both.
\<close>

theorem reconcile_larger_counterexample:
  "process_miner_rewards exact_floats
     [[(''Address'', ''0xAAAAAAAAAAAAAAAAAAAAAAAAAAAAAAAAAAAAAAAA''),
       (''S2 waifu_reward_tokens'', ''2''), (''S2 llama_reward_tokens'', ''3''),
       (''S2 Total Base Tokens'', ''100'')],
      [(''Address'', ''0xBBBBBBBBBBBBBBBBBBBBBBBBBBBBBBBBBBBBBBBB''),
       (''S2 waifu_reward_tokens'', ''2''), (''S2 llama_reward_tokens'', ''3''),
       (''S2 Total Base Tokens'', ''80'')]]
     []
     [JObj [(''address'', JStr ''0xAAAAAAAAAAAAAAAAAAAAAAAAAAAAAAAAAAAAAAAA''), (''revisedTokens'', JInt 80)],
      JObj [(''address'', JStr ''0xBBBBBBBBBBBBBBBBBBBBBBBBBBBBBBBBBBBBBBBB''), (''revisedTokens'', JInt 100)]]
     ''out.csv'' =
   Inr \<lparr>created = [''out.csv''], written =
          [[''Address'', ''S2 waifu_reward_tokens'', ''S2 llama_reward_tokens'', ''S2 Total Base Tokens''],
           [''0xAAAAAAAAAAAAAAAAAAAAAAAAAAAAAAAAAAAAAAAA'', ''2'', ''3'', ''80.0''],
           [''0xBBBBBBBBBBBBBBBBBBBBBBBBBBBBBBBBBBBBBBBB'', ''2'', ''3'', ''80''],
           [[], [], [], []],
           [''TOTAL'', ''4.0'', ''6.0'', ''160.0'']],
        printed =
          [''Processed data written to out.csv'',
           ''Total S2 waifu rewards: 4.0'',
           ''Total S2 llama rewards: 6.0'',
           ''Total S2 base tokens: 160.0'']\<rparr>"
  by code_simp

text \<open>
  C2, as the code has it.  The claim says that a remote record with neither
  \<open>revisedTokens\<close> nor \<open>totalTokens\<close> is treated as absent.  The code has no such
  fallback: line 68 reads \<open>stats['totalTokens']\<close> whenever \<open>revisedTokens\<close> is
  missing.  For a valid address that is not excluded, whose remote record has neither
  field, the run raises: \<open>KeyError\<close> for \<open>totalTokens\<close> when the local total reads as
  a float, and the error of reading the local total otherwise.  Nothing is written.
\<close>

theorem missing_remote_total_raises:
  assumes "load_unique_addresses unique_rows = Inr unique_addresses"
    and "load_miner_stats miner_stats_items = Inr miner_stats"
    and "process_rows fl unique_addresses miner_stats before init_state = Inr st"
    and "getitem r ''Address'' = Inr a"
    and "is_valid_ethereum_address (lower a)"
    and "lower a \<notin> unique_addresses"
    and "miner_stats (lower a) = Some stats"
    and "\<not> contains_key stats ''revisedTokens''"
    and "\<not> contains_key stats ''totalTokens''"
  shows "process_miner_rewards fl (before @ r # after) unique_rows miner_stats_items output_path =
           Inl (case float_field fl r ''S2 Total Base Tokens'' of
                  Inl e \<Rightarrow> e
                | Inr c \<Rightarrow> KeyError ''totalTokens'')"
proof -
  have "process_row fl unique_addresses miner_stats r st =
          Inl (case float_field fl r ''S2 Total Base Tokens'' of
                 Inl e \<Rightarrow> e | Inr c \<Rightarrow> KeyError ''totalTokens'')"
    using assms(4-9)
    by (simp add: process_row_matched compare_with_stats_def json_total_tokens_missing
             split: sum.splits)
  then have "process_rows fl unique_addresses miner_stats (before @ r # after) init_state =
          Inl (case float_field fl r ''S2 Total Base Tokens'' of
                 Inl e \<Rightarrow> e | Inr c \<Rightarrow> KeyError ''totalTokens'')"
    using assms(3) by (simp add: process_rows_append)
  then show ?thesis
    using assms(1,2) by (simp add: process_miner_rewards_def filtered_rows_def)
qed

theorem missing_remote_total_raises_witness:
  "process_miner_rewards exact_floats
     ([] @ [(''Address'', ''0xAAAAAAAAAAAAAAAAAAAAAAAAAAAAAAAAAAAAAAAA''),
            (''S2 waifu_reward_tokens'', ''2''), (''S2 llama_reward_tokens'', ''3''),
            (''S2 Total Base Tokens'', ''5'')] # [])
     []
     [JObj [(''address'', JStr ''0xAAAAAAAAAAAAAAAAAAAAAAAAAAAAAAAAAAAAAAAA''), (''totalWaifu'', JInt 7)]]
     ''out.csv'' =
   Inl (KeyError ''totalTokens'')"
proof -
  let ?a = "''0xAAAAAAAAAAAAAAAAAAAAAAAAAAAAAAAAAAAAAAAA''"
  let ?stats = "[(''address'', JStr ?a), (''totalWaifu'', JInt 7)]"
  let ?ms = "[''0xaaaaaaaaaaaaaaaaaaaaaaaaaaaaaaaaaaaaaaaa'' \<mapsto> ?stats]"
  let ?r = "[(''Address'', ?a), (''S2 waifu_reward_tokens'', ''2''),
             (''S2 llama_reward_tokens'', ''3''), (''S2 Total Base Tokens'', ''5'')]"
  have low: "lower ?a = ''0xaaaaaaaaaaaaaaaaaaaaaaaaaaaaaaaaaaaaaaaa''" by code_simp
  have h1: "load_unique_addresses [] = Inr {}" by (simp add: load_unique_addresses_def)
  have h2: "load_miner_stats [JObj ?stats] = Inr ?ms"
    by (simp add: load_miner_stats_def getitem_def low)
  have h3: "process_rows exact_floats {} ?ms [] init_state = Inr init_state" by simp
  have h4: "getitem ?r ''Address'' = Inr ?a" by code_simp
  have h5: "is_valid_ethereum_address (lower ?a)" by code_simp
  have h6: "lower ?a \<notin> {}" by simp
  have h7: "?ms (lower ?a) = Some ?stats" unfolding low by simp
  have h8: "\<not> contains_key ?stats ''revisedTokens''" by code_simp
  have h9: "\<not> contains_key ?stats ''totalTokens''" by code_simp
  have c: "float_field exact_floats ?r ''S2 Total Base Tokens'' = Inr (Fin 5)" by code_simp
  note t = missing_remote_total_raises[where miner_stats = ?ms and unique_addresses = "{}"
      and fl = exact_floats and before = "[]" and after = "[]" and output_path = "''out.csv''",
      OF h1 h2 h3 h4 h5 h6 h7 h8 h9]
  from t show ?thesis unfolding c by simp
qed

text \<open>
  A candidate whose remote record has only the address: the run ends with \<open>KeyError\<close>,
  while the same candidate with no remote record at all passes through.
\<close>

theorem missing_remote_total_counterexample:
  "process_miner_rewards exact_floats
     [[(''Address'', ''0xBBBBBBBBBBBBBBBBBBBBBBBBBBBBBBBBBBBBBBBB''),
       (''S2 waifu_reward_tokens'', ''2''), (''S2 llama_reward_tokens'', ''3''),
       (''S2 Total Base Tokens'', ''5'')]]
     []
     [JObj [(''address'', JStr ''0xBBBBBBBBBBBBBBBBBBBBBBBBBBBBBBBBBBBBBBBB'')]]
     ''out.csv'' =
   Inl (KeyError ''totalTokens'') \<and>
   process_miner_rewards exact_floats
     [[(''Address'', ''0xBBBBBBBBBBBBBBBBBBBBBBBBBBBBBBBBBBBBBBBB''),
       (''S2 waifu_reward_tokens'', ''2''), (''S2 llama_reward_tokens'', ''3''),
       (''S2 Total Base Tokens'', ''5'')]]
     []
     []
     ''out.csv'' =
   Inr \<lparr>created = [''out.csv''], written =
          [[''Address'', ''S2 waifu_reward_tokens'', ''S2 llama_reward_tokens'', ''S2 Total Base Tokens''],
           [''0xBBBBBBBBBBBBBBBBBBBBBBBBBBBBBBBBBBBBBBBB'', ''2'', ''3'', ''5''],
           [[], [], [], []],
           [''TOTAL'', ''2.0'', ''3.0'', ''5.0'']],
        printed =
          [''Processed data written to out.csv'',
           ''Total S2 waifu rewards: 2.0'',
           ''Total S2 llama rewards: 3.0'',
           ''Total S2 base tokens: 5.0'']\<rparr>"
  by code_simp

text \<open>
  C5.  Reconciliation changes no field of a record but its base-token total.  When the
  loop body returns for a valid address that is not excluded, it has appended exactly one
  record, with the columns of the candidate in the same order and with the candidate's
  text in every field other than \<open>S2 Total Base Tokens\<close> (the waifu and llama amounts
  among them), whichever branch of the comparison was taken; and when the address has no
  remote record the appended record is the candidate itself.
\<close>

theorem reconciliation_frame:
  assumes "process_row fl unique_addresses miner_stats r st = Inr st'"
    and "getitem r ''Address'' = Inr a"
    and "is_valid_ethereum_address (lower a)"
    and "lower a \<notin> unique_addresses"
  shows "\<exists>r'. processed_data st' = processed_data st @ [r'] \<and>
              map fst r' = map fst r \<and>
              (\<forall>k. k \<noteq> ''S2 Total Base Tokens'' \<longrightarrow> map_of r' k = map_of r k) \<and>
              (miner_stats (lower a) = None \<longrightarrow> r' = r)"
proof (cases "miner_stats (lower a)")
  case None
  with assms have "keep_original fl r st = Inr st'"
    by (simp add: process_row_unmatched)
  then have "processed_data st' = processed_data st @ [r]"
    by (rule keep_original_Inr)
  then show ?thesis by simp
next
  case (Some stats)
  with assms have "compare_with_stats fl stats r st = Inr st'"
    by (simp add: process_row_matched)
  then obtain c j where
    c: "float_field fl r ''S2 Total Base Tokens'' = Inr c" and
    p: "processed_data st' = processed_data st @ [reconciled_row fl r c j]"
    using compare_with_stats_Inr by blast
  from reconciled_row_frame[OF c] p Some show ?thesis by simp
qed

theorem reconciliation_frame_witness:
  "process_row exact_floats {}
     [''0xaaaaaaaaaaaaaaaaaaaaaaaaaaaaaaaaaaaaaaaa'' \<mapsto>
        [(''address'', JStr ''0xAAAAAAAAAAAAAAAAAAAAAAAAAAAAAAAAAAAAAAAA''), (''revisedTokens'', JInt 4)]]
     [(''Address'', ''0xAAAAAAAAAAAAAAAAAAAAAAAAAAAAAAAAAAAAAAAA''),
      (''S2 waifu_reward_tokens'', ''2''), (''S2 llama_reward_tokens'', ''3''),
      (''S2 Total Base Tokens'', ''5'')]
     init_state =
   Inr \<lparr>processed_data =
          [[(''Address'', ''0xAAAAAAAAAAAAAAAAAAAAAAAAAAAAAAAAAAAAAAAA''),
            (''S2 waifu_reward_tokens'', ''2''), (''S2 llama_reward_tokens'', ''3''),
            (''S2 Total Base Tokens'', ''4.0'')]],
        total_waifu_rewards = Fin 2, total_llama_rewards = Fin 3,
        total_base_tokens = Fin 4\<rparr> \<and>
   (\<exists>r'. [[(''Address'', ''0xAAAAAAAAAAAAAAAAAAAAAAAAAAAAAAAAAAAAAAAA''),
            (''S2 waifu_reward_tokens'', ''2''), (''S2 llama_reward_tokens'', ''3''),
            (''S2 Total Base Tokens'', ''4.0'')]] = [r'] \<and>
         map fst r' = [''Address'', ''S2 waifu_reward_tokens'', ''S2 llama_reward_tokens'',
                       ''S2 Total Base Tokens''] \<and>
         map_of r' ''S2 waifu_reward_tokens'' = Some ''2'' \<and>
         map_of r' ''S2 llama_reward_tokens'' = Some ''3'' \<and>
         map_of r' ''Address'' = Some ''0xAAAAAAAAAAAAAAAAAAAAAAAAAAAAAAAAAAAAAAAA'')"
proof -
  let ?a = "''0xAAAAAAAAAAAAAAAAAAAAAAAAAAAAAAAAAAAAAAAA''"
  let ?stats = "[(''address'', JStr ?a), (''revisedTokens'', JInt 4)]"
  let ?ms = "[''0xaaaaaaaaaaaaaaaaaaaaaaaaaaaaaaaaaaaaaaaa'' \<mapsto> ?stats]"
  let ?r = "[(''Address'', ?a), (''S2 waifu_reward_tokens'', ''2''),
             (''S2 llama_reward_tokens'', ''3''), (''S2 Total Base Tokens'', ''5'')]"
  let ?st' = "\<lparr>processed_data =
          [[(''Address'', ?a),
            (''S2 waifu_reward_tokens'', ''2''), (''S2 llama_reward_tokens'', ''3''),
            (''S2 Total Base Tokens'', ''4.0'')]],
        total_waifu_rewards = Fin 2, total_llama_rewards = Fin 3,
        total_base_tokens = Fin 4\<rparr>"
  have h1: "process_row exact_floats {} ?ms ?r init_state = Inr ?st'" by code_simp
  have h2: "getitem ?r ''Address'' = Inr ?a" by code_simp
  have h3: "is_valid_ethereum_address (lower ?a)" by code_simp
  have h4: "lower ?a \<notin> {}" by simp
  from reconciliation_frame[where miner_stats = ?ms, OF h1 h2 h3 h4]
  obtain r' where
    p: "processed_data ?st' = processed_data init_state @ [r']" and
    k: "map fst r' = map fst ?r" and
    f: "\<forall>k. k \<noteq> ''S2 Total Base Tokens'' \<longrightarrow> map_of r' k = map_of ?r k"
    by blast
  from f have "map_of r' ''S2 waifu_reward_tokens'' = Some ''2''"
    "map_of r' ''S2 llama_reward_tokens'' = Some ''3''"
    "map_of r' ''Address'' = Some ?a"
    by simp_all
  with p k h1 show ?thesis by (simp add: init_state_def)
qed

section \<open>Totals and output\<close>

lemma dict_to_list_Inr: "dict_to_list fieldnames r = Inr line \<Longrightarrow> line = row_cells fieldnames r"
  by (auto simp: dict_to_list_def split: if_splits)

lemma writerows_Inr: "writerows fieldnames rows = Inr body \<Longrightarrow> body = map (row_cells fieldnames) rows"
  by (induction rows arbitrary: body) (auto split: sum.splits dest: dict_to_list_Inr)

lemma row_cells_blank_row: "row_cells fieldnames (blank_row fieldnames) = map (\<lambda>key. []) fieldnames"
proof -
  have "(case map_of (blank_row fieldnames) key of Some v \<Rightarrow> v | None \<Rightarrow> []) = []" for key
    by (auto simp: blank_row_def split: option.splits dest!: map_of_SomeD)
  then show ?thesis by (simp add: row_cells_def)
qed

lemma row_cells_total_row:
  "row_cells fieldnames (total_row fl sw sl sb) = total_cells fl fieldnames sw sl sb"
  by (simp add: row_cells_def total_row_def total_cells_def)


lemma sum_column_Cons:
  assumes "sum_column fl k (first # rest) = Inr s"
  shows "\<exists>xs. float_column fl k (first # rest) = Inr xs \<and> s = sum_float fl xs"
  using assms by (auto simp: sum_column_def bindE_eq_Inr split: sum.splits if_splits)

lemma write_output_Cons:
  assumes "write_output fl (first # rest) sw sl sb output_path = Inr out"
  shows "out = \<lparr>created = [output_path], written = map fst first # map (row_cells (map fst first)) (first # rest) @
                     [map (\<lambda>key. []) (map fst first), total_cells fl (map fst first) sw sl sb],
                 printed = [''Processed data written to '' @ output_path,
                            ''Total S2 waifu rewards: '' @ str_float fl sw,
                            ''Total S2 llama rewards: '' @ str_float fl sl,
                            ''Total S2 base tokens: '' @ str_float fl sb]\<rparr>"
proof -
  let ?fn = "map fst first"
  from assms obtain body blank total where
    b: "writerows ?fn (first # rest) = Inr body" and
    bl: "dict_to_list ?fn (blank_row ?fn) = Inr blank" and
    t: "dict_to_list ?fn (total_row fl sw sl sb) = Inr total" and
    o: "out = \<lparr>created = [output_path], written = ?fn # body @ [blank, total],
                printed = [''Processed data written to '' @ output_path,
                            ''Total S2 waifu rewards: '' @ str_float fl sw,
                            ''Total S2 llama rewards: '' @ str_float fl sl,
                            ''Total S2 base tokens: '' @ str_float fl sb]\<rparr>"
    by (auto simp: write_output_def Let_def bindE_eq_Inr)
  from writerows_Inr[OF b] dict_to_list_Inr[OF bl] dict_to_list_Inr[OF t] o
  show ?thesis by (simp add: row_cells_blank_row row_cells_total_row)
qed

lemma aggregate_and_write_Cons:
  assumes "aggregate_and_write fl (first # rest) output_path = Inr out"
  shows "\<exists>ws ls bs.
           float_column fl ''S2 waifu_reward_tokens'' (first # rest) = Inr ws \<and>
           float_column fl ''S2 llama_reward_tokens'' (first # rest) = Inr ls \<and>
           float_column fl ''S2 Total Base Tokens'' (first # rest) = Inr bs \<and>
           out = \<lparr>created = [output_path], written = map fst first # map (row_cells (map fst first)) (first # rest) @
                     [map (\<lambda>key. []) (map fst first),
                      total_cells fl (map fst first) (sum_float fl ws) (sum_float fl ls) (sum_float fl bs)],
                 printed = [''Processed data written to '' @ output_path,
                            ''Total S2 waifu rewards: '' @ str_float fl (sum_float fl ws),
                            ''Total S2 llama rewards: '' @ str_float fl (sum_float fl ls),
                            ''Total S2 base tokens: '' @ str_float fl (sum_float fl bs)]\<rparr>"
proof -
  from assms obtain sw sl sb where
    w: "sum_column fl ''S2 waifu_reward_tokens'' (first # rest) = Inr sw" and
    l: "sum_column fl ''S2 llama_reward_tokens'' (first # rest) = Inr sl" and
    b: "sum_column fl ''S2 Total Base Tokens'' (first # rest) = Inr sb" and
    o: "write_output fl (first # rest) sw sl sb output_path = Inr out"
    by (auto simp: aggregate_and_write_def bindE_eq_Inr)
  from sum_column_Cons[OF w] sum_column_Cons[OF l] sum_column_Cons[OF b] write_output_Cons[OF o]
  show ?thesis by blast
qed

lemma aggregate_and_write_Nil:
  "aggregate_and_write fl [] output_path = Inr \<lparr>created = [output_path], written = [], printed = [''No data to write.'']\<rparr>"
  by (simp add: aggregate_and_write_def sum_column_def write_output_def)






text \<open>
  C8, as the code has it.  The claim says that an empty result produces no output
  artifact and is reported to the caller.  The code opens the output file for writing
  before it tests \<open>filtered_data\<close> (line 102), and the function returns \<open>None\<close>
  whatever happens.  When the filtering removes every candidate,
  \<open>process_miner_rewards\<close> returns without raising, prints \<open>No data to write.\<close>
  and writes no header, no row and no TOTAL line; the file at \<open>output_path\<close> has been
  created and is empty.
\<close>

theorem empty_result_leaves_empty_file:
  assumes "load_unique_addresses unique_rows = Inr unique_addresses"
    and "load_miner_stats miner_stats_items = Inr miner_stats"
    and "filtered_rows fl unique_addresses miner_stats input_rewards = Inr []"
  shows "process_miner_rewards fl input_rewards unique_rows miner_stats_items output_path =
           Inr \<lparr>created = [output_path], written = [], printed = [''No data to write.'']\<rparr>"
  using assms by (simp add: process_miner_rewards_def aggregate_and_write_Nil)

text \<open>
  An excluded address, a total below 1 and a malformed address: nothing survives.
\<close>

theorem empty_result_leaves_empty_file_witness:
  "filtered_rows exact_floats {''0xaaaaaaaaaaaaaaaaaaaaaaaaaaaaaaaaaaaaaaaa''} Map.empty
     [candidate ''0xAAAAAAAAAAAAAAAAAAAAAAAAAAAAAAAAAAAAAAAA'' ''2'' ''3'' ''5'',
      candidate ''0xBBBBBBBBBBBBBBBBBBBBBBBBBBBBBBBBBBBBBBBB'' ''1'' ''1'' ''0.5'',
      candidate ''not an address'' ''4'' ''6'' ''10''] = Inr [] \<and>
   process_miner_rewards exact_floats
     [candidate ''0xAAAAAAAAAAAAAAAAAAAAAAAAAAAAAAAAAAAAAAAA'' ''2'' ''3'' ''5'',
      candidate ''0xBBBBBBBBBBBBBBBBBBBBBBBBBBBBBBBBBBBBBBBB'' ''1'' ''1'' ''0.5'',
      candidate ''not an address'' ''4'' ''6'' ''10'']
     [[(''address'', ''0xAAAAAAAAAAAAAAAAAAAAAAAAAAAAAAAAAAAAAAAA'')]] [] ''out.csv'' =
   Inr \<lparr>created = [''out.csv''], written = [], printed = [''No data to write.'']\<rparr>"
proof -
  let ?rows = "[candidate ''0xAAAAAAAAAAAAAAAAAAAAAAAAAAAAAAAAAAAAAAAA'' ''2'' ''3'' ''5'',
      candidate ''0xBBBBBBBBBBBBBBBBBBBBBBBBBBBBBBBBBBBBBBBB'' ''1'' ''1'' ''0.5'',
      candidate ''not an address'' ''4'' ''6'' ''10'']"
  have low: "lower ''0xAAAAAAAAAAAAAAAAAAAAAAAAAAAAAAAAAAAAAAAA'' =
               ''0xaaaaaaaaaaaaaaaaaaaaaaaaaaaaaaaaaaaaaaaa''" by code_simp
  have h1: "load_unique_addresses [[(''address'', ''0xAAAAAAAAAAAAAAAAAAAAAAAAAAAAAAAAAAAAAAAA'')]] =
              Inr {''0xaaaaaaaaaaaaaaaaaaaaaaaaaaaaaaaaaaaaaaaa''}"
    by (simp add: load_unique_addresses_def getitem_def low)
  have h2: "load_miner_stats [] = Inr Map.empty" by (simp add: load_miner_stats_def)
  have h3: "filtered_rows exact_floats {''0xaaaaaaaaaaaaaaaaaaaaaaaaaaaaaaaaaaaaaaaa''} Map.empty
              ?rows = Inr []"
    by code_simp
  from h3 empty_result_leaves_empty_file[where miner_stats = Map.empty, OF h1 h2 h3]
  show ?thesis by (rule conjI)
qed

text \<open>
  A single candidate with total 0.5: nothing survives, and the run has created the file
  \<open>out.csv\<close>.
\<close>

theorem empty_result_artifact_counterexample:
  "process_miner_rewards exact_floats
     [candidate ''0xBBBBBBBBBBBBBBBBBBBBBBBBBBBBBBBBBBBBBBBB'' ''1'' ''1'' ''0.5'']
     [] [] ''out.csv'' =
   Inr \<lparr>created = [''out.csv''], written = [], printed = [''No data to write.'']\<rparr>"
  by code_simp

text \<open>
  C10.  The text of the fields.  For a valid address that is not excluded, the record the
  loop body appends is the candidate itself, every field verbatim, when the address has no
  remote record or the remote total is at least the local one; otherwise it is the
  candidate with \<open>str\<close> of the remote total, a float, as the text of its base-token
  field.  The last line written is the TOTAL line, whose three sums are \<open>str\<close> of
  floats as well.
\<close>

theorem output_text_forms:
  assumes "getitem r ''Address'' = Inr a"
    and "is_valid_ethereum_address (lower a)"
    and "lower a \<notin> unique_addresses"
    and "process_row fl unique_addresses miner_stats r st = Inr st'"
    and "aggregate_and_write fl (first # rest) output_path = Inr out"
  shows "(\<exists>r'. processed_data st' = processed_data st @ [r'] \<and>
           (miner_stats (lower a) = None \<longrightarrow> r' = r) \<and>
           (\<forall>stats. miner_stats (lower a) = Some stats \<longrightarrow>
              (\<exists>c j. float_field fl r ''S2 Total Base Tokens'' = Inr c \<and>
                     json_total_tokens fl stats = Inr j \<and>
                     (float_ge j c \<longrightarrow> r' = r) \<and>
                     (\<not> float_ge j c \<longrightarrow>
                        r' = AList.update ''S2 Total Base Tokens'' (str_float fl j) r \<and>
                        map_of r' ''S2 Total Base Tokens'' = Some (str_float fl j))))) \<and>
         (\<exists>ws ls bs.
            float_column fl ''S2 waifu_reward_tokens'' (first # rest) = Inr ws \<and>
            float_column fl ''S2 llama_reward_tokens'' (first # rest) = Inr ls \<and>
            float_column fl ''S2 Total Base Tokens'' (first # rest) = Inr bs \<and>
            last (written out) =
              total_cells fl (map fst first) (sum_float fl ws) (sum_float fl ls) (sum_float fl bs))"
proof -
  have A: "\<exists>r'. processed_data st' = processed_data st @ [r'] \<and>
           (miner_stats (lower a) = None \<longrightarrow> r' = r) \<and>
           (\<forall>stats. miner_stats (lower a) = Some stats \<longrightarrow>
              (\<exists>c j. float_field fl r ''S2 Total Base Tokens'' = Inr c \<and>
                     json_total_tokens fl stats = Inr j \<and>
                     (float_ge j c \<longrightarrow> r' = r) \<and>
                     (\<not> float_ge j c \<longrightarrow>
                        r' = AList.update ''S2 Total Base Tokens'' (str_float fl j) r \<and>
                        map_of r' ''S2 Total Base Tokens'' = Some (str_float fl j))))"
  proof (cases "miner_stats (lower a)")
    case None
    with assms have "keep_original fl r st = Inr st'"
      by (simp add: process_row_unmatched)
    then have "processed_data st' = processed_data st @ [r]"
      by (rule keep_original_Inr)
    with None show ?thesis by simp
  next
    case (Some stats)
    with assms have "compare_with_stats fl stats r st = Inr st'"
      by (simp add: process_row_matched)
    then obtain c j where
      c: "float_field fl r ''S2 Total Base Tokens'' = Inr c" and
      j: "json_total_tokens fl stats = Inr j" and
      p: "processed_data st' = processed_data st @ [reconciled_row fl r c j]"
      using compare_with_stats_Inr by blast
    have "(float_ge j c \<longrightarrow> reconciled_row fl r c j = r) \<and>
          (\<not> float_ge j c \<longrightarrow>
             reconciled_row fl r c j = AList.update ''S2 Total Base Tokens'' (str_float fl j) r \<and>
             map_of (reconciled_row fl r c j) ''S2 Total Base Tokens'' = Some (str_float fl j))"
      by (simp add: reconciled_row_def update_conv')
    with Some c j p show ?thesis by auto
  qed
  from aggregate_and_write_Cons[OF assms(5)] obtain ws ls bs where
    w: "float_column fl ''S2 waifu_reward_tokens'' (first # rest) = Inr ws" and
    l: "float_column fl ''S2 llama_reward_tokens'' (first # rest) = Inr ls" and
    b: "float_column fl ''S2 Total Base Tokens'' (first # rest) = Inr bs" and
    o: "out = \<lparr>created = [output_path], written = map fst first # map (row_cells (map fst first)) (first # rest) @
                     [map (\<lambda>key. []) (map fst first),
                      total_cells fl (map fst first) (sum_float fl ws) (sum_float fl ls) (sum_float fl bs)],
                 printed = [''Processed data written to '' @ output_path,
                            ''Total S2 waifu rewards: '' @ str_float fl (sum_float fl ws),
                            ''Total S2 llama rewards: '' @ str_float fl (sum_float fl ls),
                            ''Total S2 base tokens: '' @ str_float fl (sum_float fl bs)]\<rparr>"
    by blast
  from o have "last (written out) =
      total_cells fl (map fst first) (sum_float fl ws) (sum_float fl ls) (sum_float fl bs)"
    by simp
  with w l b have B: "\<exists>ws ls bs.
            float_column fl ''S2 waifu_reward_tokens'' (first # rest) = Inr ws \<and>
            float_column fl ''S2 llama_reward_tokens'' (first # rest) = Inr ls \<and>
            float_column fl ''S2 Total Base Tokens'' (first # rest) = Inr bs \<and>
            last (written out) =
              total_cells fl (map fst first) (sum_float fl ws) (sum_float fl ls) (sum_float fl bs)"
    by blast
  from A B show ?thesis by (rule conjI)
qed

text \<open>
  A remote integer 80 that replaces a local 100 is written as \<open>80.0\<close>, while a record
  that passes through with the text \<open>80\<close> keeps it: equal numbers, different texts.
\<close>

theorem output_text_forms_witness:
  "\<exists>st' out.
     process_row exact_floats {}
       [''0xaaaaaaaaaaaaaaaaaaaaaaaaaaaaaaaaaaaaaaaa'' \<mapsto>
          [(''address'', JStr ''0xAAAAAAAAAAAAAAAAAAAAAAAAAAAAAAAAAAAAAAAA''), (''revisedTokens'', JInt 80)]]
       (candidate ''0xAAAAAAAAAAAAAAAAAAAAAAAAAAAAAAAAAAAAAAAA'' ''2'' ''3'' ''100'')
       init_state = Inr st' \<and>
     processed_data st' = [candidate ''0xAAAAAAAAAAAAAAAAAAAAAAAAAAAAAAAAAAAAAAAA'' ''2'' ''3'' ''80.0''] \<and>
     aggregate_and_write exact_floats
       [candidate ''0xAAAAAAAAAAAAAAAAAAAAAAAAAAAAAAAAAAAAAAAA'' ''2'' ''3'' ''80.0'',
        candidate ''0xBBBBBBBBBBBBBBBBBBBBBBBBBBBBBBBBBBBBBBBB'' ''2'' ''3'' ''80'']
       ''out.csv'' = Inr out \<and>
     written out =
       [[''Address'', ''S2 waifu_reward_tokens'', ''S2 llama_reward_tokens'', ''S2 Total Base Tokens''],
        [''0xAAAAAAAAAAAAAAAAAAAAAAAAAAAAAAAAAAAAAAAA'', ''2'', ''3'', ''80.0''],
        [''0xBBBBBBBBBBBBBBBBBBBBBBBBBBBBBBBBBBBBBBBB'', ''2'', ''3'', ''80''],
        [[], [], [], []],
        [''TOTAL'', ''4.0'', ''6.0'', ''160.0'']] \<and>
     (\<exists>ws ls bs.
        float_column exact_floats ''S2 waifu_reward_tokens''
          [candidate ''0xAAAAAAAAAAAAAAAAAAAAAAAAAAAAAAAAAAAAAAAA'' ''2'' ''3'' ''80.0'',
           candidate ''0xBBBBBBBBBBBBBBBBBBBBBBBBBBBBBBBBBBBBBBBB'' ''2'' ''3'' ''80''] = Inr ws \<and>
        float_column exact_floats ''S2 llama_reward_tokens''
          [candidate ''0xAAAAAAAAAAAAAAAAAAAAAAAAAAAAAAAAAAAAAAAA'' ''2'' ''3'' ''80.0'',
           candidate ''0xBBBBBBBBBBBBBBBBBBBBBBBBBBBBBBBBBBBBBBBB'' ''2'' ''3'' ''80''] = Inr ls \<and>
        float_column exact_floats ''S2 Total Base Tokens''
          [candidate ''0xAAAAAAAAAAAAAAAAAAAAAAAAAAAAAAAAAAAAAAAA'' ''2'' ''3'' ''80.0'',
           candidate ''0xBBBBBBBBBBBBBBBBBBBBBBBBBBBBBBBBBBBBBBBB'' ''2'' ''3'' ''80''] = Inr bs \<and>
        last (written out) =
          total_cells exact_floats
            (map fst (candidate ''0xAAAAAAAAAAAAAAAAAAAAAAAAAAAAAAAAAAAAAAAA'' ''2'' ''3'' ''80.0''))
            (sum_float exact_floats ws) (sum_float exact_floats ls) (sum_float exact_floats bs))"
proof -
  let ?A = "''0xAAAAAAAAAAAAAAAAAAAAAAAAAAAAAAAAAAAAAAAA''"
  let ?stats = "[(''address'', JStr ?A), (''revisedTokens'', JInt 80)]"
  let ?ms = "[''0xaaaaaaaaaaaaaaaaaaaaaaaaaaaaaaaaaaaaaaaa'' \<mapsto> ?stats]"
  let ?r = "candidate ?A ''2'' ''3'' ''100''"
  let ?r' = "candidate ?A ''2'' ''3'' ''80.0''"
  let ?p = "candidate ''0xBBBBBBBBBBBBBBBBBBBBBBBBBBBBBBBBBBBBBBBB'' ''2'' ''3'' ''80''"
  let ?st' = "\<lparr>processed_data = [?r'], total_waifu_rewards = Fin 2,
              total_llama_rewards = Fin 3, total_base_tokens = Fin 80\<rparr>"
  let ?out = "\<lparr>created = [''out.csv''], written =
       [[''Address'', ''S2 waifu_reward_tokens'', ''S2 llama_reward_tokens'', ''S2 Total Base Tokens''],
        [?A, ''2'', ''3'', ''80.0''],
        [''0xBBBBBBBBBBBBBBBBBBBBBBBBBBBBBBBBBBBBBBBB'', ''2'', ''3'', ''80''],
        [[], [], [], []],
        [''TOTAL'', ''4.0'', ''6.0'', ''160.0'']],
      printed =
        [''Processed data written to out.csv'',
         ''Total S2 waifu rewards: 4.0'',
         ''Total S2 llama rewards: 6.0'',
         ''Total S2 base tokens: 160.0'']\<rparr>"
  have h1: "getitem ?r ''Address'' = Inr ?A" by code_simp
  have h2: "is_valid_ethereum_address (lower ?A)" by code_simp
  have h3: "lower ?A \<notin> {}" by simp
  have h4: "process_row exact_floats {} ?ms ?r init_state = Inr ?st'" by code_simp
  have h5: "aggregate_and_write exact_floats (?r' # [?p]) ''out.csv'' = Inr ?out" by code_simp
  note t = output_text_forms[where miner_stats = ?ms, OF h1 h2 h3 h4 h5]
  from t have c: "\<exists>ws ls bs.
        float_column exact_floats ''S2 waifu_reward_tokens'' [?r', ?p] = Inr ws \<and>
        float_column exact_floats ''S2 llama_reward_tokens'' [?r', ?p] = Inr ls \<and>
        float_column exact_floats ''S2 Total Base Tokens'' [?r', ?p] = Inr bs \<and>
        last (written ?out) =
          total_cells exact_floats (map fst ?r')
            (sum_float exact_floats ws) (sum_float exact_floats ls) (sum_float exact_floats bs)"
    by (rule conjunct2)
  have p: "processed_data ?st' = [?r']" by simp
  have w: "written ?out =
       [[''Address'', ''S2 waifu_reward_tokens'', ''S2 llama_reward_tokens'', ''S2 Total Base Tokens''],
        [?A, ''2'', ''3'', ''80.0''],
        [''0xBBBBBBBBBBBBBBBBBBBBBBBBBBBBBBBBBBBBBBBB'', ''2'', ''3'', ''80''],
        [[], [], [], []],
        [''TOTAL'', ''4.0'', ''6.0'', ''160.0'']]"
    by simp
  show ?thesis
    by (rule exI[of _ ?st'], rule exI[of _ ?out],
        rule conjI[OF h4 conjI[OF p conjI[OF h5 conjI[OF w c]]]])
qed

section \<open>The exclusion set\<close>

lemma set_lowered_strings: "set (lowered_strings col) = whole_strings col"
  by (induction col rule: lowered_strings.induct) (auto simp: whole_strings_def)

lemma set_lowered_split_first:
  "set (lowered_strings (map split_first col)) = first_pieces col"
  by (induction col rule: lowered_strings.induct) (auto simp: first_pieces_def first_piece_def)

lemma first_piece_no_comma: "CHR '','' \<notin> set s \<Longrightarrow> first_piece s = s"
  by (auto simp: first_piece_def takeWhile_eq_all_conv)

lemma whole_strings_no_comma:
  assumes "\<not> list_ex contains_comma col"
  shows "whole_strings col = first_pieces col"
proof -
  have "PStr s \<in> set col \<Longrightarrow> first_piece s = s" for s
  proof -
    assume "PStr s \<in> set col"
    with assms have "\<not> contains_comma (PStr s)" by (auto simp: list_ex_iff)
    then show ?thesis by (simp add: first_piece_no_comma)
  qed
  then show ?thesis unfolding whole_strings_def first_pieces_def by force
qed

lemma set_sybil_addresses:
  "set (lowered_strings (sybil_addresses column0)) = first_pieces column0"
proof (cases "list_ex contains_comma column0")
  case True
  then show ?thesis by (simp add: sybil_addresses_def set_lowered_split_first)
next
  case False
  then show ?thesis
    by (simp add: sybil_addresses_def set_lowered_strings whole_strings_no_comma)
qed

lemma sybil_loop_union:
  "sybil_loop unique_addresses files = unique_addresses \<union> (\<Union>column0 \<in> set files. first_pieces column0)"
  by (induction files arbitrary: unique_addresses) (auto simp: set_sybil_addresses)

text \<open>
  C7, as the code has it.  The claim says that every comma-separated component of a cell
  is inserted.  Line 26 keeps piece 0 of the split only.  The set the program builds is
  the union, over the sybil files, of the lower-cased first pieces of the strings of the
  first column, together with the lower-cased strings of the \<open>Address\<close> column of the
  claimed-rewards file (taken whole); cells that are not strings are left out.  The set
  does not depend on the order of the sybil files, nor on a file being listed twice.
\<close>

theorem collect_first_pieces_only:
  "collect_unique_addresses sybil_files rewards =
     (\<Union>column0 \<in> set sybil_files. first_pieces column0) \<union>
     (case rewards of Some col \<Rightarrow> whole_strings col | None \<Rightarrow> {}) \<and>
   (set sybil_files' = set sybil_files \<longrightarrow>
      collect_unique_addresses sybil_files' rewards = collect_unique_addresses sybil_files rewards)"
  by (simp add: collect_unique_addresses_def sybil_loop_union set_lowered_strings
           split: option.splits)

theorem collect_first_pieces_only_witness:
  "collect_unique_addresses
     [[PStr ''0xAA,0xBB'', PFloat NaN], [PStr ''0xCC'']] (Some [PStr ''0xDD,0xEE'']) =
     {''0xaa'', ''0xcc'', ''0xdd,0xee''} \<and>
   collect_unique_addresses
     [[PStr ''0xCC''], [PStr ''0xAA,0xBB'', PFloat NaN]] (Some [PStr ''0xDD,0xEE'']) =
   collect_unique_addresses
     [[PStr ''0xAA,0xBB'', PFloat NaN], [PStr ''0xCC'']] (Some [PStr ''0xDD,0xEE''])"
proof -
  let ?f = "[[PStr ''0xAA,0xBB'', PFloat NaN], [PStr ''0xCC'']]"
  let ?f' = "[[PStr ''0xCC''], [PStr ''0xAA,0xBB'', PFloat NaN]]"
  let ?r = "Some [PStr ''0xDD,0xEE'']"
  note t = collect_first_pieces_only[of ?f ?r ?f']
  have s: "set ?f' = set ?f" by auto
  from t s have o: "collect_unique_addresses ?f' ?r = collect_unique_addresses ?f ?r"
    by blast
  have v: "collect_unique_addresses ?f ?r = {''0xaa'', ''0xcc'', ''0xdd,0xee''}"
    by code_simp
  from v o show ?thesis by (rule conjI)
qed

text \<open>
  A cell with two comma-joined addresses: the first is in the set, the second is not.
\<close>

theorem collect_all_pieces_counterexample:
  "''0xaa'' \<in> collect_unique_addresses [[PStr ''0xAA,0xBB'']] None \<and>
   ''0xbb'' \<notin> collect_unique_addresses [[PStr ''0xAA,0xBB'']] None"
  by code_simp

section \<open>The early filter before the pipeline\<close>

lemma append_and_count_independent:
  assumes "append_and_count fl out r b st = Inr st'"
  shows "\<exists>s'. append_and_count fl out r b' s = Inr s' \<and>
              processed_data s' = processed_data s @ [out]"
  using assms by (auto simp: append_and_count_def bindE_eq_Inr)

lemma compare_with_stats_independent:
  assumes "compare_with_stats fl stats r st = Inr st'"
  shows "\<exists>s' d. compare_with_stats fl stats r s = Inr s' \<and>
                processed_data st' = processed_data st @ d \<and>
                processed_data s' = processed_data s @ d"
proof -
  from assms obtain c j where
    c: "float_field fl r ''S2 Total Base Tokens'' = Inr c" and
    j: "json_total_tokens fl stats = Inr j" and
    a: "(if float_ge j c then append_and_count fl r r c st
         else append_and_count fl
                (AList.update ''S2 Total Base Tokens'' (str_float fl j) r) r j st) = Inr st'"
    by (auto simp: compare_with_stats_def bindE_eq_Inr)
  show ?thesis
  proof (cases "float_ge j c")
    case True
    with a have a': "append_and_count fl r r c st = Inr st'" by simp
    from append_and_count_independent[OF a', of c s] append_and_count_Inr[OF a'] c j True
    show ?thesis by (auto simp: compare_with_stats_def)
  next
    case False
    with a have a': "append_and_count fl
                (AList.update ''S2 Total Base Tokens'' (str_float fl j) r) r j st = Inr st'" by simp
    from append_and_count_independent[OF a', of j s] append_and_count_Inr[OF a'] c j False
    show ?thesis by (auto simp: compare_with_stats_def)
  qed
qed

lemma keep_original_independent:
  assumes "keep_original fl r st = Inr st'"
  shows "\<exists>s' d. keep_original fl r s = Inr s' \<and>
                processed_data st' = processed_data st @ d \<and>
                processed_data s' = processed_data s @ d"
  using assms by (auto simp: keep_original_def bindE_eq_Inr)

lemma process_row_independent:
  assumes "process_row fl ua ms r st = Inr st'"
  shows "\<exists>s' d. process_row fl ua ms r s = Inr s' \<and>
                processed_data st' = processed_data st @ d \<and>
                processed_data s' = processed_data s @ d"
proof -
  from assms obtain a where a: "getitem r ''Address'' = Inr a"
    by (auto simp: process_row_def bindE_eq_Inr)
  show ?thesis
  proof (cases "is_valid_ethereum_address (lower a) \<and> lower a \<notin> ua")
    case False
    with assms a have "st' = st" and "process_row fl ua ms r s = Inr s"
      by (auto simp: process_row_def Let_def split: if_splits)
    then show ?thesis by simp
  next
    case True
    show ?thesis
    proof (cases "ms (lower a)")
      case None
      with assms a True have "keep_original fl r st = Inr st'"
        by (simp add: process_row_unmatched)
      from keep_original_independent[OF this, of s] a True None show ?thesis
        by (simp add: process_row_unmatched)
    next
      case (Some stats)
      with assms a True have "compare_with_stats fl stats r st = Inr st'"
        by (simp add: process_row_matched)
      from compare_with_stats_independent[OF this, of s] a True Some show ?thesis
        by (simp add: process_row_matched)
    qed
  qed
qed

lemma process_rows_independent:
  assumes "process_rows fl ua ms rows st = Inr st'"
  shows "\<exists>s' d. process_rows fl ua ms rows s = Inr s' \<and>
                processed_data st' = processed_data st @ d \<and>
                processed_data s' = processed_data s @ d"
  using assms
proof (induction rows arbitrary: st s)
  case Nil
  then show ?case by simp
next
  case (Cons r rows)
  from Cons.prems obtain st1 where
    s1: "process_row fl ua ms r st = Inr st1" and
    s2: "process_rows fl ua ms rows st1 = Inr st'"
    by (auto split: sum.splits)
  from process_row_independent[OF s1, of s] obtain t1 d1 where
    t1: "process_row fl ua ms r s = Inr t1" and
    d1: "processed_data st1 = processed_data st @ d1" "processed_data t1 = processed_data s @ d1"
    by blast
  from Cons.IH[OF s2, of t1] obtain t' d2 where
    t': "process_rows fl ua ms rows t1 = Inr t'" and
    d2: "processed_data st' = processed_data st1 @ d2" "processed_data t' = processed_data t1 @ d2"
    by blast
  from t1 t' d1 d2 show ?case by simp
qed

lemma filter_threshold_iff:
  "filter_threshold fl rows = Inr kept \<longleftrightarrow>
     list_all (\<lambda>r. \<exists>x. float_field fl r ''S2 Total Base Tokens'' = Inr x) rows \<and>
     kept = filter (base_at_least_one fl) rows"
proof (induction rows arbitrary: kept)
  case Nil
  then show ?case by auto
next
  case (Cons r rest)
  show ?case
  proof (cases "float_field fl r ''S2 Total Base Tokens''")
    case (Inl e)
    then show ?thesis by simp
  next
    case (Inr x)
    then have b: "base_at_least_one fl r = float_ge x (Fin 1)"
      by (simp add: base_at_least_one_def float_ge_one)
    show ?thesis
    proof (cases "filter_threshold fl rest")
      case (Inl e)
      with Cons.IH[of "filter (base_at_least_one fl) rest"] Inr show ?thesis by auto
    next
      case (Inr k)
      with Cons.IH[of k] \<open>float_field fl r ''S2 Total Base Tokens'' = Inr x\<close> b
      show ?thesis by auto
    qed
  qed
qed



lemma filtered_rows_Nil: "filtered_rows fl ua ms [] = Inr []"
  by (simp add: filtered_rows_def init_state_def)

lemma filtered_rows_unfold:
  "filtered_rows fl ua ms rows = Inr out \<longleftrightarrow>
     (\<exists>st. process_rows fl ua ms rows init_state = Inr st \<and>
           list_all (\<lambda>r. \<exists>x. float_field fl r ''S2 Total Base Tokens'' = Inr x) (processed_data st) \<and>
           out = filter (base_at_least_one fl) (processed_data st))"
  by (auto simp: filtered_rows_def bindE_eq_Inr filter_threshold_iff)

lemma filtered_rows_Cons_iff:
  "filtered_rows fl ua ms (r # rows) = Inr out \<longleftrightarrow>
     (\<exists>o1 o2. filtered_rows fl ua ms [r] = Inr o1 \<and> filtered_rows fl ua ms rows = Inr o2 \<and>
              out = o1 @ o2)"
proof
  assume "filtered_rows fl ua ms (r # rows) = Inr out"
  then obtain st where
    st: "process_rows fl ua ms (r # rows) init_state = Inr st" and
    ok: "list_all (\<lambda>r. \<exists>x. float_field fl r ''S2 Total Base Tokens'' = Inr x) (processed_data st)" and
    out: "out = filter (base_at_least_one fl) (processed_data st)"
    unfolding filtered_rows_unfold by blast
  from st obtain st1 where
    s1: "process_row fl ua ms r init_state = Inr st1" and
    s2: "process_rows fl ua ms rows st1 = Inr st"
    by (auto split: sum.splits)
  from process_rows_independent[OF s2, of init_state] obtain t d where
    t: "process_rows fl ua ms rows init_state = Inr t" and
    d: "processed_data st = processed_data st1 @ d" "processed_data t = processed_data init_state @ d"
    by blast
  from d have pd: "processed_data st = processed_data st1 @ processed_data t"
    by (simp add: init_state_def)
  from s1 have r1: "process_rows fl ua ms [r] init_state = Inr st1" by simp
  from ok pd have ok1: "list_all (\<lambda>r. \<exists>x. float_field fl r ''S2 Total Base Tokens'' = Inr x) (processed_data st1)"
    and ok2: "list_all (\<lambda>r. \<exists>x. float_field fl r ''S2 Total Base Tokens'' = Inr x) (processed_data t)"
    by simp_all
  from r1 ok1 have a: "filtered_rows fl ua ms [r] = Inr (filter (base_at_least_one fl) (processed_data st1))"
    unfolding filtered_rows_unfold by blast
  from t ok2 have b: "filtered_rows fl ua ms rows = Inr (filter (base_at_least_one fl) (processed_data t))"
    unfolding filtered_rows_unfold by blast
  from out pd have "out = filter (base_at_least_one fl) (processed_data st1) @
                          filter (base_at_least_one fl) (processed_data t)"
    by simp
  with a b show "\<exists>o1 o2. filtered_rows fl ua ms [r] = Inr o1 \<and> filtered_rows fl ua ms rows = Inr o2 \<and>
              out = o1 @ o2"
    by blast
next
  assume "\<exists>o1 o2. filtered_rows fl ua ms [r] = Inr o1 \<and> filtered_rows fl ua ms rows = Inr o2 \<and>
              out = o1 @ o2"
  then obtain o1 o2 where
    a: "filtered_rows fl ua ms [r] = Inr o1" and
    b: "filtered_rows fl ua ms rows = Inr o2" and
    out: "out = o1 @ o2"
    by blast
  from a obtain st1 where
    r1: "process_rows fl ua ms [r] init_state = Inr st1" and
    ok1: "list_all (\<lambda>r. \<exists>x. float_field fl r ''S2 Total Base Tokens'' = Inr x) (processed_data st1)" and
    o1: "o1 = filter (base_at_least_one fl) (processed_data st1)"
    unfolding filtered_rows_unfold by blast
  from b obtain t where
    t: "process_rows fl ua ms rows init_state = Inr t" and
    ok2: "list_all (\<lambda>r. \<exists>x. float_field fl r ''S2 Total Base Tokens'' = Inr x) (processed_data t)" and
    o2: "o2 = filter (base_at_least_one fl) (processed_data t)"
    unfolding filtered_rows_unfold by blast
  from r1 have s1: "process_row fl ua ms r init_state = Inr st1"
    by (auto split: sum.splits)
  from process_rows_independent[OF t, of st1] obtain st d where
    s2: "process_rows fl ua ms rows st1 = Inr st" and
    d: "processed_data t = processed_data init_state @ d" "processed_data st = processed_data st1 @ d"
    by blast
  from d have pd: "processed_data st = processed_data st1 @ processed_data t"
    by (simp add: init_state_def)
  from s1 s2 have "process_rows fl ua ms (r # rows) init_state = Inr st" by simp
  moreover from ok1 ok2 pd
  have "list_all (\<lambda>r. \<exists>x. float_field fl r ''S2 Total Base Tokens'' = Inr x) (processed_data st)"
    by simp
  moreover from out o1 o2 pd have "out = filter (base_at_least_one fl) (processed_data st)"
    by simp
  ultimately show "filtered_rows fl ua ms (r # rows) = Inr out"
    unfolding filtered_rows_unfold by blast
qed

lemma filtered_rows_concat:
  "filtered_rows fl ua ms rows = Inr out \<longleftrightarrow>
     list_all (\<lambda>r. \<exists>o1. filtered_rows fl ua ms [r] = Inr o1) rows \<and>
     out = concat (map (survivors_of fl ua ms) rows)"
proof (induction rows arbitrary: out)
  case Nil
  then show ?case by (auto simp: filtered_rows_Nil)
next
  case (Cons r rows)
  show ?case
  proof
    assume "filtered_rows fl ua ms (r # rows) = Inr out"
    then obtain o1 o2 where
      a: "filtered_rows fl ua ms [r] = Inr o1" and
      b: "filtered_rows fl ua ms rows = Inr o2" and
      out: "out = o1 @ o2"
      unfolding filtered_rows_Cons_iff[of fl ua ms r rows out] by blast
    from b Cons.IH[of o2] have
      "list_all (\<lambda>r. \<exists>o1. filtered_rows fl ua ms [r] = Inr o1) rows" and
      "o2 = concat (map (survivors_of fl ua ms) rows)"
      by simp_all
    moreover from a have "survivors_of fl ua ms r = o1"
      by (simp add: survivors_of_def)
    ultimately show "list_all (\<lambda>r. \<exists>o1. filtered_rows fl ua ms [r] = Inr o1) (r # rows) \<and>
        out = concat (map (survivors_of fl ua ms) (r # rows))"
      using a out by simp
  next
    assume r: "list_all (\<lambda>r. \<exists>o1. filtered_rows fl ua ms [r] = Inr o1) (r # rows) \<and>
        out = concat (map (survivors_of fl ua ms) (r # rows))"
    then obtain o1 where a: "filtered_rows fl ua ms [r] = Inr o1" by auto
    then have s: "survivors_of fl ua ms r = o1" by (simp add: survivors_of_def)
    from r have "list_all (\<lambda>r. \<exists>o1. filtered_rows fl ua ms [r] = Inr o1) rows" by simp
    with Cons.IH[of "concat (map (survivors_of fl ua ms) rows)"]
    have b: "filtered_rows fl ua ms rows = Inr (concat (map (survivors_of fl ua ms) rows))"
      by simp
    from r s have "out = o1 @ concat (map (survivors_of fl ua ms) rows)" by simp
    with a b show "filtered_rows fl ua ms (r # rows) = Inr out"
      unfolding filtered_rows_Cons_iff[of fl ua ms r rows out] by blast
  qed
qed

lemma subseq_concat_filter:
  "subseq (concat (map h (filter p xs))) (concat (map h xs))"
proof (induction xs)
  case Nil
  then show ?case by simp
next
  case (Cons x xs)
  show ?case
  proof (cases "p x")
    case True
    have "subseq (h x @ concat (map h (filter p xs))) (h x @ concat (map h xs))"
      using Cons.IH by (intro list_emb_append_mono) simp_all
    with True show ?thesis by simp
  next
    case False
    have "subseq (concat (map h (filter p xs))) (h x @ concat (map h xs))"
      using Cons.IH by (rule list_emb_append2)
    with False show ?thesis by simp
  qed
qed

lemma concat_filter_same:
  "(\<forall>x \<in> set xs. \<not> p x \<longrightarrow> h x = []) \<Longrightarrow> concat (map h (filter p xs)) = concat (map h xs)"
  by (induction xs) auto

lemma filter_airdrop_data_Inr:
  assumes "filter_airdrop_data df = Inr df'"
  shows "columns df' = columns df \<and> cells df' = filter (final_filter (columns df)) (cells df)"
  using assms by (auto simp: filter_airdrop_data_def split: list.splits)

text \<open>
  C9, as the code has it.  The early filter is \<open>filter_airdrop_data\<close>; the candidate
  table is a frame, which reaches \<open>process_miner_rewards\<close> through its CSV text.  The
  early filter keeps the rows that have a non-zero token column and a non-zero
  \<open>S1 Total Base Tokens\<close> or \<open>S1 Total Bonus Tokens\<close>, so it also drops candidates
  whose S2 totals are not zero, and the claim's equality fails.  What holds: when the
  pipeline returns on the whole table, it returns on the filtered table too, and the
  records it then produces are a subsequence of the records produced without the early
  filter; the two results are equal when no row the early filter drops contributes a
  record.
\<close>

theorem early_filter_only_removes:
  assumes "filter_airdrop_data df = Inr df'"
    and "filtered_rows fl unique_addresses miner_stats (csv_rows fl df) = Inr out"
  shows "columns df' = columns df \<and>
         cells df' = filter (final_filter (columns df)) (cells df) \<and>
         (\<exists>out'. filtered_rows fl unique_addresses miner_stats (csv_rows fl df') = Inr out' \<and>
                 subseq out' out \<and>
                 ((\<forall>r \<in> set (cells df).
                     \<not> final_filter (columns df) r \<longrightarrow>
                     survivors_of fl unique_addresses miner_stats (csv_row fl (columns df) r) = [])
                  \<longrightarrow> out' = out))"
proof -
  let ?h = "\<lambda>r. survivors_of fl unique_addresses miner_stats (csv_row fl (columns df) r)"
  let ?p = "final_filter (columns df)"
  from filter_airdrop_data_Inr[OF assms(1)] have
    c: "columns df' = columns df" and k: "cells df' = filter ?p (cells df)"
    by simp_all
  from iffD1[OF filtered_rows_concat assms(2)] have
    ok: "list_all (\<lambda>r. \<exists>o1. filtered_rows fl unique_addresses miner_stats [r] = Inr o1) (csv_rows fl df)" and
    out: "out = concat (map (survivors_of fl unique_addresses miner_stats) (csv_rows fl df))"
    by (rule conjunct1, rule conjunct2)
  from c k have rows': "csv_rows fl df' = map (csv_row fl (columns df)) (filter ?p (cells df))"
    by (simp add: csv_rows_def)
  from ok have ok': "list_all (\<lambda>r. \<exists>o1. filtered_rows fl unique_addresses miner_stats [r] = Inr o1)
                  (csv_rows fl df')"
    unfolding rows' by (auto simp: csv_rows_def list_all_iff)
  have f: "filtered_rows fl unique_addresses miner_stats (csv_rows fl df') =
                  Inr (concat (map (survivors_of fl unique_addresses miner_stats) (csv_rows fl df')))"
    by (rule iffD2[OF filtered_rows_concat]) (rule conjI[OF ok' refl])
  have o': "concat (map (survivors_of fl unique_addresses miner_stats) (csv_rows fl df')) =
              concat (map ?h (filter ?p (cells df)))"
    unfolding rows' by (simp add: comp_def)
  have o: "out = concat (map ?h (cells df))"
    unfolding out by (simp add: csv_rows_def comp_def)
  have s: "subseq (concat (map ?h (filter ?p (cells df)))) out"
    unfolding o by (rule subseq_concat_filter)
  have e: "(\<forall>r \<in> set (cells df). \<not> ?p r \<longrightarrow> ?h r = []) \<longrightarrow>
             concat (map ?h (filter ?p (cells df))) = out"
    unfolding o using concat_filter_same[of "cells df" ?p ?h] by blast
  from f o' s e have "\<exists>out'. filtered_rows fl unique_addresses miner_stats (csv_rows fl df') = Inr out' \<and>
                 subseq out' out \<and>
                 ((\<forall>r \<in> set (cells df). \<not> ?p r \<longrightarrow> ?h r = []) \<longrightarrow> out' = out)"
    by simp
  with c k show ?thesis by simp
qed

theorem early_filter_only_removes_witness:
  "\<exists>df df' out.
     df = \<lparr>columns = [''Address'', ''S1 Total Base Tokens'', ''S1 Total Bonus Tokens'',
                      ''S2 waifu_reward_tokens'', ''S2 llama_reward_tokens'', ''S2 Total Base Tokens''],
           cells = [[PStr ''0xaaaaaaaaaaaaaaaaaaaaaaaaaaaaaaaaaaaaaaaa'', PInt 0, PInt 0,
                     PInt 0, PInt 0, PInt 0],
                    [PStr ''0xbbbbbbbbbbbbbbbbbbbbbbbbbbbbbbbbbbbbbbbb'', PInt 1, PInt 0,
                     PInt 2, PInt 3, PInt 5]]\<rparr> \<and>
     filter_airdrop_data df = Inr df' \<and>
     cells df' = [[PStr ''0xbbbbbbbbbbbbbbbbbbbbbbbbbbbbbbbbbbbbbbbb'', PInt 1, PInt 0,
                   PInt 2, PInt 3, PInt 5]] \<and>
     filtered_rows exact_floats {} Map.empty (csv_rows exact_floats df) = Inr out \<and>
     out = [[(''Address'', ''0xbbbbbbbbbbbbbbbbbbbbbbbbbbbbbbbbbbbbbbbb''),
             (''S1 Total Base Tokens'', ''1''), (''S1 Total Bonus Tokens'', ''0''),
             (''S2 waifu_reward_tokens'', ''2''), (''S2 llama_reward_tokens'', ''3''),
             (''S2 Total Base Tokens'', ''5'')]] \<and>
     filtered_rows exact_floats {} Map.empty (csv_rows exact_floats df') = Inr out"
proof -
  let ?cols = "[''Address'', ''S1 Total Base Tokens'', ''S1 Total Bonus Tokens'',
                ''S2 waifu_reward_tokens'', ''S2 llama_reward_tokens'', ''S2 Total Base Tokens'']"
  let ?r1 = "[PStr ''0xaaaaaaaaaaaaaaaaaaaaaaaaaaaaaaaaaaaaaaaa'', PInt 0, PInt 0,
              PInt 0, PInt 0, PInt 0]"
  let ?r2 = "[PStr ''0xbbbbbbbbbbbbbbbbbbbbbbbbbbbbbbbbbbbbbbbb'', PInt 1, PInt 0,
              PInt 2, PInt 3, PInt 5]"
  let ?df = "\<lparr>columns = ?cols, cells = [?r1, ?r2]\<rparr>"
  let ?df' = "\<lparr>columns = ?cols, cells = [?r2]\<rparr>"
  let ?out = "[[(''Address'', ''0xbbbbbbbbbbbbbbbbbbbbbbbbbbbbbbbbbbbbbbbb''),
             (''S1 Total Base Tokens'', ''1''), (''S1 Total Bonus Tokens'', ''0''),
             (''S2 waifu_reward_tokens'', ''2''), (''S2 llama_reward_tokens'', ''3''),
             (''S2 Total Base Tokens'', ''5'')]]"
  have h1: "filter_airdrop_data ?df = Inr ?df'" by code_simp
  have h2: "filtered_rows exact_floats {} Map.empty (csv_rows exact_floats ?df) = Inr ?out"
    by code_simp
  have k2: "final_filter ?cols ?r2" by code_simp
  have s1: "survivors_of exact_floats {} Map.empty (csv_row exact_floats ?cols ?r1) = []"
    by code_simp
  from early_filter_only_removes[where miner_stats = Map.empty, OF h1 h2]
  obtain out' where
    f: "filtered_rows exact_floats {} Map.empty (csv_rows exact_floats ?df') = Inr out'" and
    e: "(\<forall>r \<in> set (cells ?df).
           \<not> final_filter (columns ?df) r \<longrightarrow>
           survivors_of exact_floats {} Map.empty (csv_row exact_floats (columns ?df) r) = [])
        \<longrightarrow> out' = ?out"
    by blast
  have "\<forall>r \<in> set (cells ?df).
           \<not> final_filter (columns ?df) r \<longrightarrow>
           survivors_of exact_floats {} Map.empty (csv_row exact_floats (columns ?df) r) = []"
    using k2 s1 by simp
  with e have o: "out' = ?out" by (rule mp)
  from f have f': "filtered_rows exact_floats {} Map.empty (csv_rows exact_floats ?df') = Inr ?out"
    unfolding o .
  have c: "cells ?df' = [?r2]" by simp
  show ?thesis
    by (rule exI[of _ ?df], rule exI[of _ ?df'], rule exI[of _ ?out],
        rule conjI[OF refl conjI[OF h1 conjI[OF c conjI[OF h2 conjI[OF refl f']]]]])
qed

text \<open>
  A candidate whose S1 totals are zero and whose S2 base total is 5: the early filter
  drops it, the pipeline alone keeps it.
\<close>

theorem early_filter_changes_result_counterexample:
  "filter_airdrop_data
     \<lparr>columns = [''Address'', ''S1 Total Base Tokens'', ''S1 Total Bonus Tokens'',
                 ''S2 waifu_reward_tokens'', ''S2 llama_reward_tokens'', ''S2 Total Base Tokens''],
      cells = [[PStr ''0xaaaaaaaaaaaaaaaaaaaaaaaaaaaaaaaaaaaaaaaa'', PInt 0, PInt 0,
                PInt 2, PInt 3, PInt 5]]\<rparr> =
   Inr \<lparr>columns = [''Address'', ''S1 Total Base Tokens'', ''S1 Total Bonus Tokens'',
                 ''S2 waifu_reward_tokens'', ''S2 llama_reward_tokens'', ''S2 Total Base Tokens''],
        cells = []\<rparr> \<and>
   filtered_rows exact_floats {} Map.empty
     (csv_rows exact_floats
        \<lparr>columns = [''Address'', ''S1 Total Base Tokens'', ''S1 Total Bonus Tokens'',
                    ''S2 waifu_reward_tokens'', ''S2 llama_reward_tokens'', ''S2 Total Base Tokens''],
         cells = [[PStr ''0xaaaaaaaaaaaaaaaaaaaaaaaaaaaaaaaaaaaaaaaa'', PInt 0, PInt 0,
                   PInt 2, PInt 3, PInt 5]]\<rparr>) =
   Inr [[(''Address'', ''0xaaaaaaaaaaaaaaaaaaaaaaaaaaaaaaaaaaaaaaaa''),
         (''S1 Total Base Tokens'', ''0''), (''S1 Total Bonus Tokens'', ''0''),
         (''S2 waifu_reward_tokens'', ''2''), (''S2 llama_reward_tokens'', ''3''),
         (''S2 Total Base Tokens'', ''5'')]] \<and>
   filtered_rows exact_floats {} Map.empty
     (csv_rows exact_floats
        \<lparr>columns = [''Address'', ''S1 Total Base Tokens'', ''S1 Total Bonus Tokens'',
                    ''S2 waifu_reward_tokens'', ''S2 llama_reward_tokens'', ''S2 Total Base Tokens''],
         cells = []\<rparr>) =
   Inr []"
  by code_simp

end
